theory Spec2Isabelle
  imports Main "HOL-Library.Word"
begin

unbundle bit_operations_syntax

section \<open>Bytes, strings and hexadecimal text\<close>

type_synonym byte = "8 word"

text \<open>
  Go strings are byte sequences; \<open>len\<close> counts bytes and slicing works on bytes.
  They are modelled as \<open>string\<close> (a list of 8-bit characters).
\<close>

text \<open>\<open>strings.HasPrefix(s, prefix)\<close>.\<close>

fun HasPrefix :: "string \<Rightarrow> string \<Rightarrow> bool" where
  "HasPrefix s [] = True"
| "HasPrefix [] (p # ps) = False"
| "HasPrefix (c # s) (p # ps) = (c = p \<and> HasPrefix s ps)"

text \<open>\<open>strings.Contains(s, substr)\<close>, as used by \<open>require.ErrorContains\<close>.\<close>

fun Contains :: "string \<Rightarrow> string \<Rightarrow> bool" where
  "Contains [] substr = HasPrefix [] substr"
| "Contains (c # s) substr = (HasPrefix (c # s) substr \<or> Contains s substr)"

text \<open>
  \<open>strings.ToLower\<close> on ASCII text: the letters \<open>A\<close> to \<open>Z\<close> are moved to \<open>a\<close> to \<open>z\<close>,
  every other byte below 128 is kept. The source applies it to hexadecimal text only,
  which is ASCII.
\<close>

definition toLower_char :: "char \<Rightarrow> char" where
  "toLower_char c =
     (if 65 \<le> (of_char c :: nat) \<and> (of_char c :: nat) \<le> 90
      then char_of ((of_char c :: nat) + 32) else c)"

definition ToLower :: "string \<Rightarrow> string" where
  "ToLower s = map toLower_char s"

text \<open>
  \<open>hex.EncodeToString\<close> of the Go standard library: for every byte \<open>v\<close> the two
  characters \<open>hextable[v >> 4]\<close> and \<open>hextable[v & 0x0f]\<close>.
\<close>

definition hextable :: string where
  "hextable = ''0123456789abcdef''"

fun EncodeToString :: "byte list \<Rightarrow> string" where
  "EncodeToString [] = []"
| "EncodeToString (v # src) =
     hextable ! unat (drop_bit 4 v) # hextable ! unat (v AND 0x0f) # EncodeToString src"

section \<open>Virtual frontier bank contract\<close>

text \<open>\<open>type VFBankContractMethod uint8\<close> with its seven \<open>iota\<close> constants.\<close>

datatype VFBankContractMethod =
    VFBCmUnknown
  | VFBCmName
  | VFBCmSymbol
  | VFBCmDecimals
  | VFBCmTotalSupply
  | VFBCmBalanceOf
  | VFBCmTransfer

text \<open>
  The metadata message of a bank contract. Its declaration is generated code; the
  fields are those the tests set: \<open>MinDenom\<close>, \<open>Exponent\<close> (a \<open>uint32\<close>) and
  \<open>DisplayName\<close>.
\<close>

record VFBankContractMetadata =
  MinDenom :: string
  Exponent :: "32 word"
  DisplayName :: string

type_synonym error = string

text \<open>
  \<open>func (m *VFBankContractMetadata) ValidateBasic() error\<close>; \<open>None\<close> is the \<open>nil\<close>
  error.
\<close>

definition ValidateBasic :: "VFBankContractMetadata \<Rightarrow> error option" where
  "ValidateBasic m =
     (if length (MinDenom m) = 0 then Some ''min denom cannot be empty'' else None)"

text \<open>
  \<open>func (m *VFBankContractMetadata) GetMethodFromSignature(input []byte)
  (method VFBankContractMethod, found bool)\<close>. The receiver is not read.
\<close>

definition GetMethodFromSignature ::
  "VFBankContractMetadata \<Rightarrow> byte list \<Rightarrow> VFBankContractMethod \<times> bool" where
  "GetMethodFromSignature m input =
     (if length input < 4 then (VFBCmUnknown, False)
      else let sig = ToLower (EncodeToString (take 4 input)) in
        if sig = ''06fdde03'' then (VFBCmName, True)
        else if sig = ''95d89b41'' then (VFBCmSymbol, True)
        else if sig = ''313ce567'' then (VFBCmDecimals, True)
        else if sig = ''18160ddd'' then (VFBCmTotalSupply, True)
        else if sig = ''70a08231'' then (VFBCmBalanceOf, True)
        else if sig = ''a9059cbb'' then (VFBCmTransfer, True)
        else (VFBCmUnknown, False))"

section \<open>Addresses of the execution environment\<close>

text \<open>
  \<open>common.Address\<close> is an array of 20 bytes and \<open>common.Hash\<close> one of 32 bytes; both,
  and \<open>sdk.AccAddress\<close> (a byte slice), are byte lists here, so that \<open>.Bytes()\<close> and the
  conversion \<open>sdk.AccAddress(address.Bytes())\<close> are the identity.
\<close>

type_synonym Address = "byte list"
type_synonym Hash = "byte list"
type_synonym AccAddress = "byte list"

definition AddressLength :: nat where
  "AddressLength = 20"

text \<open>
  The functions of go-ethereum's package \<open>common\<close> that the tests compare
  \<open>ContractAddress\<close> with, and \<open>hex.DecodeString\<close> below them.
  \<open>fromHexChar\<close> is the value of one hexadecimal digit, in either case.
\<close>

definition fromHexChar :: "char \<Rightarrow> byte option" where
  "fromHexChar c =
     (let n = (of_char c :: nat) in
      if 48 \<le> n \<and> n \<le> 57 then Some (of_nat (n - 48))
      else if 97 \<le> n \<and> n \<le> 102 then Some (of_nat (n - 97 + 10))
      else if 65 \<le> n \<and> n \<le> 70 then Some (of_nat (n - 65 + 10))
      else None)"

text \<open>
  \<open>common.Hex2Bytes\<close>: \<open>hex.DecodeString\<close> with its error dropped, which leaves the
  bytes decoded before the first invalid digit or the dangling last digit.
\<close>

fun Hex2Bytes :: "string \<Rightarrow> byte list" where
  "Hex2Bytes (p # q # str) =
     (case fromHexChar p of
        None \<Rightarrow> []
      | Some a \<Rightarrow>
          (case fromHexChar q of
             None \<Rightarrow> []
           | Some b \<Rightarrow> (push_bit 4 a OR b) # Hex2Bytes str))"
| "Hex2Bytes str = []"

definition has0xPrefix :: "string \<Rightarrow> bool" where
  "has0xPrefix str =
     (length str \<ge> 2 \<and> str ! 0 = CHR ''0'' \<and> (str ! 1 = CHR ''x'' \<or> str ! 1 = CHR ''X''))"

definition FromHex :: "string \<Rightarrow> byte list" where
  "FromHex s =
     (let s = (if has0xPrefix s then drop 2 s else s);
          s = (if length s mod 2 = 1 then CHR ''0'' # s else s)
      in Hex2Bytes s)"

text \<open>
  \<open>common.BytesToAddress\<close>: the last 20 bytes of a longer slice, a shorter one
  right-aligned in an array of zeros.
\<close>

definition BytesToAddress :: "byte list \<Rightarrow> Address" where
  "BytesToAddress b =
     (let b = (if length b > AddressLength then drop (length b - AddressLength) b else b)
      in replicate (AddressLength - length b) 0 @ b)"

definition HexToAddress :: "string \<Rightarrow> Address" where
  "HexToAddress s = BytesToAddress (FromHex s)"

definition isHexCharacter :: "char \<Rightarrow> bool" where
  "isHexCharacter c =
     (let n = (of_char c :: nat) in
      (48 \<le> n \<and> n \<le> 57) \<or> (97 \<le> n \<and> n \<le> 102) \<or> (65 \<le> n \<and> n \<le> 70))"

definition isHex :: "string \<Rightarrow> bool" where
  "isHex str = (length str mod 2 = 0 \<and> list_all isHexCharacter str)"

definition IsHexAddress :: "string \<Rightarrow> bool" where
  "IsHexAddress s =
     (let s = (if has0xPrefix s then drop 2 s else s)
      in length s = 2 * AddressLength \<and> isHex s)"

section \<open>Virtual frontier contract records\<close>

text \<open>
  The record of a virtual frontier contract, with the fields the tests set. \<open>Type\<close> is
  a \<open>uint32\<close>; its two named values are \<open>VirtualFrontierContractTypeUnknown\<close> and
  \<open>VirtualFrontierContractTypeBankContract\<close>.
\<close>

record VirtualFrontierContract =
  Address :: string
  Active :: bool
  Type :: "32 word"
  Metadata :: "byte list"

definition VirtualFrontierContractTypeUnknown :: "32 word" where
  "VirtualFrontierContractTypeUnknown = 0"

definition VirtualFrontierContractTypeBankContract :: "32 word" where
  "VirtualFrontierContractTypeBankContract = 1"

text \<open>
  The binary codec handed to \<open>ValidateBasic\<close>: \<open>MustMarshal\<close> serialises a metadata
  message and \<open>Unmarshal\<close> reads one back, failing with \<open>None\<close>.
\<close>

record Codec =
  MustMarshal :: "VFBankContractMetadata \<Rightarrow> byte list"
  Unmarshal :: "byte list \<Rightarrow> VFBankContractMetadata option"

text \<open>
  Modelled from the spec: \<open>VirtualFrontierContract.ContractAddress\<close>, whose file is not
  among the sources. The spec has the address text parsed with an optional \<open>0x\<close> prefix
  and the empty text decoded to the zero address; the test expects the value of
  \<open>common.HexToAddress\<close> on the text.
\<close>

definition ContractAddress :: "VirtualFrontierContract \<Rightarrow> Address" where
  "ContractAddress m = HexToAddress (Address m)"

definition nil_address_text :: string where
  "nil_address_text = ''0x0000000000000000000000000000000000000000''"

text \<open>
  Modelled from the spec: \<open>VirtualFrontierContract.ValidateBasic\<close>, whose file is not
  among the sources. The checks and their order are those of the spec: the nil address,
  the form of the address (20 bytes of hexadecimal text, the \<open>0x\<close> prefix, lowercase), the
  contract type, the metadata of that type; the messages are the substrings the tests
  look for. The nil check is on the canonical text of the zero address: the test
  \<open>missing address\<close> expects the empty text to be reported as a malformed address.
\<close>

definition VirtualFrontierContract_ValidateBasic ::
  "Codec \<Rightarrow> VirtualFrontierContract \<Rightarrow> error option" where
  "VirtualFrontierContract_ValidateBasic cdc m =
     (if Address m = nil_address_text then Some ''nil address''
      else if \<not> IsHexAddress (Address m) then Some ''malformed address''
      else if \<not> HasPrefix (Address m) ''0x'' then Some ''address must start with 0x''
      else if Address m \<noteq> ToLower (Address m) then Some ''address must be lowercase''
      else if Type m \<noteq> VirtualFrontierContractTypeBankContract
        then Some ''type must be specified''
      else
        (case Unmarshal cdc (Metadata m) of
           None \<Rightarrow> Some ''metadata does not pass validation''
         | Some meta \<Rightarrow>
             (case ValidateBasic meta of
                Some err \<Rightarrow> Some ''metadata does not pass validation''
              | None \<Rightarrow> None)))"

subsection \<open>The test tables of the record\<close>

definition validVFBankContractMetadata :: VFBankContractMetadata where
  "validVFBankContractMetadata = \<lparr>MinDenom = ''wei'', Exponent = 18, DisplayName = ''ETH''\<rparr>"

definition invalidVFBankContractMetadata :: VFBankContractMetadata where
  "invalidVFBankContractMetadata = \<lparr>MinDenom = '''', Exponent = 18, DisplayName = ''ETH''\<rparr>"

text \<open>
  A row of \<open>TestVirtualFrontierContract_ValidateBasic\<close>: name, contract, \<open>wantErr\<close>,
  \<open>wantErrContains\<close>.
\<close>

type_synonym ValidateBasic_test = "string \<times> VirtualFrontierContract \<times> bool \<times> string"

definition ValidateBasic_tests :: "Codec \<Rightarrow> ValidateBasic_test list" where
  "ValidateBasic_tests cdc =
     (let validVFBankContractMetadataBz = MustMarshal cdc validVFBankContractMetadata;
          invalidVFBankContractMetadataBz = MustMarshal cdc invalidVFBankContractMetadata
      in
      [(''normal'',
        \<lparr>Address = ''0x405b96e2538ac85ee862e332fa634b158d013ae1'', Active = True,
         Type = VirtualFrontierContractTypeBankContract,
         Metadata = validVFBankContractMetadataBz\<rparr>, False, ''''),
       (''normal, decimals=6'',
        \<lparr>Address = ''0x405b96e2538ac85ee862e332fa634b158d013ae1'', Active = True,
         Type = VirtualFrontierContractTypeBankContract,
         Metadata = validVFBankContractMetadataBz\<rparr>, False, ''''),
       (''address can not be the nil one'',
        \<lparr>Address = ''0x0000000000000000000000000000000000000000'', Active = True,
         Type = VirtualFrontierContractTypeBankContract,
         Metadata = validVFBankContractMetadataBz\<rparr>, True, ''nil address''),
       (''bad format address'',
        \<lparr>Address = ''0x405b96e2538ac85ee862e332fa634b158d013ae100'', Active = True,
         Type = VirtualFrontierContractTypeBankContract,
         Metadata = validVFBankContractMetadataBz\<rparr>, True, ''malformed address''),
       (''address must start with 0x'',
        \<lparr>Address = ''405b96e2538ac85ee862e332fa634b158d013ae1'', Active = True,
         Type = VirtualFrontierContractTypeBankContract,
         Metadata = validVFBankContractMetadataBz\<rparr>, True, ''start with 0x''),
       (''address must be lowercase'',
        \<lparr>Address = ''0xAA5b96e2538ac85ee862e332fa634b158d013aBB'', Active = True,
         Type = VirtualFrontierContractTypeBankContract,
         Metadata = validVFBankContractMetadataBz\<rparr>, True, ''lowercase''),
       (''missing address'',
        \<lparr>Address = '''', Active = True,
         Type = VirtualFrontierContractTypeBankContract,
         Metadata = validVFBankContractMetadataBz\<rparr>, True, ''malformed address''),
       (''type must be specified (not set)'',
        \<lparr>Address = ''0x405b96e2538ac85ee862e332fa634b158d013ae1'', Active = True,
         Type = 0,
         Metadata = validVFBankContractMetadataBz\<rparr>, True, ''type must be specified''),
       (''type must be specified (unknown type)'',
        \<lparr>Address = ''0x405b96e2538ac85ee862e332fa634b158d013ae1'', Active = True,
         Type = VirtualFrontierContractTypeUnknown,
         Metadata = validVFBankContractMetadataBz\<rparr>, True, ''type must be specified''),
       (''invalid VF bank contract metadata'',
        \<lparr>Address = ''0x405b96e2538ac85ee862e332fa634b158d013ae1'', Active = True,
         Type = VirtualFrontierContractTypeBankContract,
         Metadata = invalidVFBankContractMetadataBz\<rparr>, True,
        ''metadata does not pass validation'')])"

text \<open>
  The body of the test loop: \<open>require.NoError\<close> when no error is wanted, otherwise
  \<open>require.Error\<close> and \<open>require.ErrorContains\<close>.
\<close>

definition ValidateBasic_test_passes :: "Codec \<Rightarrow> ValidateBasic_test \<Rightarrow> bool" where
  "ValidateBasic_test_passes cdc tt =
     (case tt of (name, contract, wantErr, wantErrContains) \<Rightarrow>
        (case VirtualFrontierContract_ValidateBasic cdc contract of
           None \<Rightarrow> \<not> wantErr
         | Some err \<Rightarrow> wantErr \<and> Contains err wantErrContains))"

text \<open>
  The rows of \<open>TestVirtualFrontierContract_ContractAddress\<close>: name, address text and
  the address wanted; \<open>common.Address{}\<close> is the array of 20 zero bytes.
\<close>

definition ContractAddress_tests :: "(string \<times> string \<times> Address) list" where
  "ContractAddress_tests =
     [(''normal'', ''0x405b96e2538ac85ee862e332fa634b158d013ae1'',
       HexToAddress ''0x405b96e2538ac85ee862e332fa634b158d013ae1''),
      (''normal, without 0x prefix'', ''405b96e2538ac85ee862e332fa634b158d013ae1'',
       HexToAddress ''0x405b96e2538ac85ee862e332fa634b158d013ae1''),
      (''normal, empty address'', '''', replicate 20 0)]"

definition ContractAddress_test_passes :: "string \<times> string \<times> Address \<Rightarrow> bool" where
  "ContractAddress_test_passes tt =
     (case tt of (name, address, want) \<Rightarrow>
        want = ContractAddress \<lparr>Address = address, Active = False, Type = 0, Metadata = []\<rparr>)"


section \<open>Genesis state and the collaborators of InitGenesis\<close>

text \<open>\<open>types.State\<close>, one storage entry of a genesis account.\<close>

record State =
  Key :: string
  Value :: string

record GenesisAccount =
  Address :: string
  Code :: string
  Storage :: "State list"

text \<open>The module parameters; \<open>InitGenesis\<close> reads \<open>EvmDenom\<close> and \<open>EnableCreate\<close>.\<close>

record Params =
  EvmDenom :: string
  EnableCreate :: bool

record GenesisState =
  Accounts :: "GenesisAccount list"
  Params :: Params
  VirtualFrontierContracts :: "VirtualFrontierContract list"

text \<open>\<open>banktypes.DenomUnit\<close> and \<open>banktypes.Metadata\<close>, with the fields the source sets.\<close>

record DenomUnit =
  Denom :: string
  Exponent :: "32 word"

record Metadata =
  DenomUnits :: "DenomUnit list"
  Base :: string
  Display :: string
  Name :: string
  Symbol :: string

text \<open>
  An account as \<open>GetAccount\<close> returns it: one that implements
  \<open>ethermint.EthAccountI\<close>, with its code hash, or an account of another Go type, with
  the name of that type.
\<close>

datatype AccountI =
    EthAccount (GetCodeHash: Hash)
  | OtherAccount string

record ModuleAccountI =
  GetSequence :: "64 word"

datatype ValidatorUpdate = ValidatorUpdate "byte list" int

text \<open>
  The collaborators are not part of the sources; they are parameters of the model. The
  state \<open>'s\<close> is everything a call can read or change through \<open>ctx\<close> and the keeper. A
  method that writes returns the new state, next to its error if it has one; a method
  named \<open>Get...\<close> reads the state. \<open>'dm\<close> is the type of the denomination metadata that
  \<open>CollectMetadataForVirtualFrontierBankContract\<close> prepares for the deployment.
\<close>

record ('s, 'dm) Keeper =
  WithChainID :: "'s \<Rightarrow> 's"
  SetParams :: "'s \<Rightarrow> Params \<Rightarrow> 's \<times> error option"
  SetCode :: "'s \<Rightarrow> byte list \<Rightarrow> byte list \<Rightarrow> 's"
  SetState :: "'s \<Rightarrow> Address \<Rightarrow> Hash \<Rightarrow> byte list \<Rightarrow> 's"
  GetVirtualFrontierBankContractAddressByDenom :: "'s \<Rightarrow> string \<Rightarrow> Address \<times> bool"
  DeployNewVirtualFrontierBankContract ::
    "'s \<Rightarrow> VirtualFrontierContract \<Rightarrow> VFBankContractMetadata \<Rightarrow> 'dm \<Rightarrow> 's \<times> (error + Address)"
  GenesisImportVirtualFrontierContracts ::
    "'s \<Rightarrow> VirtualFrontierContract list \<Rightarrow> 's \<times> error option"
  PersistedVirtualFrontierContracts :: "'s \<Rightarrow> VirtualFrontierContract list"

record 's AccountKeeper =
  GetModuleAddress :: "string \<Rightarrow> AccAddress option"
  GetAccount :: "'s \<Rightarrow> AccAddress \<Rightarrow> AccountI option"
  GetModuleAccount :: "'s \<Rightarrow> string \<Rightarrow> ModuleAccountI option"

record 's BankKeeper =
  GetDenomMetaData :: "'s \<Rightarrow> string \<Rightarrow> Metadata \<times> bool"
  SetDenomMetaData :: "'s \<Rightarrow> Metadata \<Rightarrow> 's"

text \<open>
  The package-level functions and constants \<open>InitGenesis\<close> uses: the two chain
  profiles of \<open>utils\<close>, the module names of \<open>types\<close>, the conversions of go-ethereum,
  Keccak-256, \<open>strings.ToUpper\<close> and the metadata collector of \<open>types\<close>.
\<close>

record ('s, 'dm) Packages =
  IsOneOfDymensionChains :: "'s \<Rightarrow> bool"
  IsEthermintDevChain :: "'s \<Rightarrow> bool"
  ModuleName :: string
  ModuleVirtualFrontierContractDeployerName :: string
  common_HexToAddress :: "string \<Rightarrow> Address"
  common_Hex2Bytes :: "string \<Rightarrow> byte list"
  common_HexToHash :: "string \<Rightarrow> Hash"
  Keccak256Hash :: "byte list \<Rightarrow> Hash"
  ToUpper :: "string \<Rightarrow> string"
  CollectMetadataForVirtualFrontierBankContract :: "Metadata \<Rightarrow> 'dm \<times> bool"

text \<open>
  Modelled from the spec: \<open>Keeper.IterateVirtualFrontierContracts\<close>, which is not among
  the sources. It visits the persisted records in their stable order and stops when the
  callback returns \<open>true\<close>. The callback's captured variables are the accumulator.
\<close>

fun iterate_records ::
  "VirtualFrontierContract list \<Rightarrow> (VirtualFrontierContract \<Rightarrow> 'a \<Rightarrow> 'a \<times> bool) \<Rightarrow> 'a \<Rightarrow> 'a" where
  "iterate_records [] cb acc = acc"
| "iterate_records (c # cs) cb acc =
     (case cb c acc of (acc', stop) \<Rightarrow> if stop then acc' else iterate_records cs cb acc')"

definition IterateVirtualFrontierContracts ::
  "('s, 'dm) Keeper \<Rightarrow> 's \<Rightarrow> (VirtualFrontierContract \<Rightarrow> 'a \<Rightarrow> 'a \<times> bool) \<Rightarrow> 'a \<Rightarrow> 'a" where
  "IterateVirtualFrontierContracts k ctx cb acc =
     iterate_records (PersistedVirtualFrontierContracts k ctx) cb acc"

text \<open>
  Modelled from the spec: the bulk import of the Deployer
  (\<open>Keeper.GenesisImportVirtualFrontierContracts\<close>, which is not among the sources), as far
  as the registry goes: when it succeeds, the records it was given are written after
  the records already persisted, in their order.
\<close>

definition bulk_import_in_order ::
  "('s, 'dm) Keeper \<Rightarrow> 's \<Rightarrow> VirtualFrontierContract list \<Rightarrow> bool" where
  "bulk_import_in_order k ctx cs =
     (case GenesisImportVirtualFrontierContracts k ctx cs of
        (ctx', Some err) \<Rightarrow> True
      | (ctx', None) \<Rightarrow>
          PersistedVirtualFrontierContracts k ctx' =
            PersistedVirtualFrontierContracts k ctx @ cs)"

section \<open>InitGenesis\<close>

text \<open>
  The value a \<open>panic\<close> of \<open>InitGenesis\<close> carries, one constructor for each place that
  panics, with the values its message is formatted from. The two last ones are panics
  of the Go runtime: a slice expression out of range (with its bounds) and a method
  call on a nil interface.
\<close>

datatype panic =
    PanicEnableCreateNotAllowed
  | PanicSettingParams error
  | PanicEvmModuleAccountNotSet
  | PanicVFCDeployerAccountNotSet
  | PanicAccountNotFound string
  | PanicNotEthAccount string string
  | PanicCodeHashMismatch string Hash Hash string
  | PanicInvalidNativeMetadata Metadata
  | PanicError error
  | PanicInvalidSequence "64 word" "64 word"
  | PanicSliceBoundsOutOfRange nat nat
  | PanicNilDereference

text \<open>
  A run of \<open>InitGenesis\<close> either panics, and the state is the one reached at the panic,
  or returns its validator updates and the final state.
\<close>

type_synonym 's aborted = "panic \<times> 's"

text \<open>
  Lines 43 to 60: the check of \<open>EnableCreate\<close> on Dymension chains, the chain id, the
  parameters and the two module accounts.
\<close>

definition InitGenesis_setup ::
  "('s, 'dm) Packages \<Rightarrow> 's \<Rightarrow> ('s, 'dm) Keeper \<Rightarrow> 's AccountKeeper \<Rightarrow> GenesisState
     \<Rightarrow> 's aborted + 's" where
  "InitGenesis_setup pkg ctx k accountKeeper data =
     (if IsOneOfDymensionChains pkg ctx \<and> EnableCreate (Params data)
      then Inl (PanicEnableCreateNotAllowed, ctx)
      else
        let ctx = WithChainID k ctx in
        (case SetParams k ctx (Params data) of
           (ctx, Some err) \<Rightarrow> Inl (PanicSettingParams err, ctx)
         | (ctx, None) \<Rightarrow>
             if GetModuleAddress accountKeeper (ModuleName pkg) = None
             then Inl (PanicEvmModuleAccountNotSet, ctx)
             else if GetModuleAddress accountKeeper
                       (ModuleVirtualFrontierContractDeployerName pkg) = None
             then Inl (PanicVFCDeployerAccountNotSet, ctx)
             else Inr ctx))"

text \<open>Lines 63 to 93: the body of the loop over \<open>data.Accounts\<close>.\<close>

definition InitGenesis_account ::
  "('s, 'dm) Packages \<Rightarrow> ('s, 'dm) Keeper \<Rightarrow> 's AccountKeeper \<Rightarrow> 's \<Rightarrow> GenesisAccount
     \<Rightarrow> 's aborted + 's" where
  "InitGenesis_account pkg k accountKeeper ctx account =
     (let address = common_HexToAddress pkg (GenesisAccount.Address account);
          accAddress = address
      in
      case GetAccount accountKeeper ctx accAddress of
        None \<Rightarrow> Inl (PanicAccountNotFound (GenesisAccount.Address account), ctx)
      | Some (OtherAccount goType) \<Rightarrow>
          Inl (PanicNotEthAccount (GenesisAccount.Address account) goType, ctx)
      | Some (EthAccount ethAcctCodeHash) \<Rightarrow>
          let code = common_Hex2Bytes pkg (Code account);
              codeHash = Keccak256Hash pkg code
          in
          if length (Code account) \<noteq> 0 \<and> ethAcctCodeHash \<noteq> codeHash
          then Inl (PanicCodeHashMismatch (GenesisAccount.Address account) codeHash
                      ethAcctCodeHash (Code account), ctx)
          else
            Inr (foldl
                   (\<lambda>ctx storage.
                      SetState k ctx address (common_HexToHash pkg (Key storage))
                        (common_HexToHash pkg (Value storage)))
                   (SetCode k ctx codeHash code)
                   (Storage account)))"

text \<open>Lines 62 to 94: the loop; a panic ends it.\<close>

fun InitGenesis_accounts ::
  "('s, 'dm) Packages \<Rightarrow> ('s, 'dm) Keeper \<Rightarrow> 's AccountKeeper \<Rightarrow> 's \<Rightarrow> GenesisAccount list
     \<Rightarrow> 's aborted + 's" where
  "InitGenesis_accounts pkg k accountKeeper ctx [] = Inr ctx"
| "InitGenesis_accounts pkg k accountKeeper ctx (account # accounts) =
     (case InitGenesis_account pkg k accountKeeper ctx account of
        Inl p \<Rightarrow> Inl p
      | Inr ctx' \<Rightarrow> InitGenesis_accounts pkg k accountKeeper ctx' accounts)"

text \<open>
  Lines 107 to 131: the bank metadata of the native denomination, created when the bank
  keeper has none. \<open>denom[1:]\<close> panics when \<open>denom\<close> is empty.
\<close>

definition InitGenesis_nativeMetadata ::
  "('s, 'dm) Packages \<Rightarrow> 's BankKeeper \<Rightarrow> 's \<Rightarrow> string \<Rightarrow> 's aborted + Metadata \<times> 's" where
  "InitGenesis_nativeMetadata pkg bankKeeper ctx denom =
     (case GetDenomMetaData bankKeeper ctx denom of
        (bankDenomMetadataOfNative, found) \<Rightarrow>
          if \<not> found then
            if 1 > length denom
            then Inl (PanicSliceBoundsOutOfRange 1 (length denom), ctx)
            else
              let name = ToUpper pkg (drop 1 denom);
                  bankDenomMetadataOfNative =
                    \<lparr>DenomUnits =
                       [\<lparr>Denom = denom, Exponent = 0\<rparr>, \<lparr>Denom = name, Exponent = 18\<rparr>],
                     Base = denom, Display = name, Name = name, Symbol = name\<rparr>
              in Inr (bankDenomMetadataOfNative,
                      SetDenomMetaData bankKeeper ctx bankDenomMetadataOfNative)
          else Inr (bankDenomMetadataOfNative, ctx))"

text \<open>
  Lines 96 to 150: on a development chain, the bank contract of the native denomination
  is deployed unless one is found. The log line is not part of the state.
\<close>

definition InitGenesis_devnet ::
  "('s, 'dm) Packages \<Rightarrow> ('s, 'dm) Keeper \<Rightarrow> 's BankKeeper \<Rightarrow> 's \<Rightarrow> GenesisState
     \<Rightarrow> 's aborted + 's" where
  "InitGenesis_devnet pkg k bankKeeper ctx data =
     (if IsEthermintDevChain pkg ctx then
        let denom = EvmDenom (Params data) in
        (case GetVirtualFrontierBankContractAddressByDenom k ctx denom of
           (_, found) \<Rightarrow>
             if \<not> found then
               let vfBankContractOfNativeMeta =
                     \<lparr>MinDenom = denom, VFBankContractMetadata.Exponent = 0, DisplayName = ''''\<rparr>
               in
               (case InitGenesis_nativeMetadata pkg bankKeeper ctx denom of
                  Inl p \<Rightarrow> Inl p
                | Inr (bankDenomMetadataOfNative, ctx) \<Rightarrow>
                    (case CollectMetadataForVirtualFrontierBankContract pkg
                            bankDenomMetadataOfNative of
                       (denomMetadata, valid) \<Rightarrow>
                         if \<not> valid
                         then Inl (PanicInvalidNativeMetadata bankDenomMetadataOfNative, ctx)
                         else
                           (case DeployNewVirtualFrontierBankContract k ctx
                                   \<lparr>VirtualFrontierContract.Address = '''', Active = True,
                                    Type = 0, Metadata = []\<rparr>
                                   vfBankContractOfNativeMeta denomMetadata of
                              (ctx, Inl err) \<Rightarrow> Inl (PanicError err, ctx)
                            | (ctx, Inr contract) \<Rightarrow> Inr ctx)))
             else Inr ctx)
      else Inr ctx)"

text \<open>Lines 152 to 156: the bulk import of the records of the genesis state.\<close>

definition InitGenesis_contracts ::
  "('s, 'dm) Keeper \<Rightarrow> 's \<Rightarrow> GenesisState \<Rightarrow> 's aborted + 's" where
  "InitGenesis_contracts k ctx data =
     (if length (VirtualFrontierContracts data) > 0 then
        (case GenesisImportVirtualFrontierContracts k ctx (VirtualFrontierContracts data) of
           (ctx, Some err) \<Rightarrow> Inl (PanicError err, ctx)
         | (ctx, None) \<Rightarrow> Inr ctx)
      else Inr ctx)"

text \<open>
  Lines 158 to 170: the records are counted in a \<open>uint64\<close> and the count is compared
  with the sequence of the deployer module account; then the empty list of validator
  updates is returned.
\<close>

definition InitGenesis_sequence ::
  "('s, 'dm) Packages \<Rightarrow> ('s, 'dm) Keeper \<Rightarrow> 's AccountKeeper \<Rightarrow> 's
     \<Rightarrow> 's aborted + ValidatorUpdate list \<times> 's" where
  "InitGenesis_sequence pkg k accountKeeper ctx =
     (let deployedVFCsCount =
            IterateVirtualFrontierContracts k ctx
              (\<lambda>_ deployedVFCsCount. (deployedVFCsCount + 1, False)) (0 :: 64 word)
      in
      case GetModuleAccount accountKeeper ctx
             (ModuleVirtualFrontierContractDeployerName pkg) of
        None \<Rightarrow> Inl (PanicNilDereference, ctx)
      | Some deployerModuleAccount \<Rightarrow>
          if GetSequence deployerModuleAccount \<noteq> deployedVFCsCount
          then Inl (PanicInvalidSequence deployedVFCsCount
                      (GetSequence deployerModuleAccount), ctx)
          else Inr ([], ctx))"

text \<open>
  Lines 43 to 156 in their order: the state reached before the sequence check, or the
  first panic.
\<close>

definition InitGenesis_import ::
  "('s, 'dm) Packages \<Rightarrow> 's \<Rightarrow> ('s, 'dm) Keeper \<Rightarrow> 's AccountKeeper \<Rightarrow> 's BankKeeper
     \<Rightarrow> GenesisState \<Rightarrow> 's aborted + 's" where
  "InitGenesis_import pkg ctx k accountKeeper bankKeeper data =
     (case InitGenesis_setup pkg ctx k accountKeeper data of
        Inl p \<Rightarrow> Inl p
      | Inr ctx \<Rightarrow>
          (case InitGenesis_accounts pkg k accountKeeper ctx (Accounts data) of
             Inl p \<Rightarrow> Inl p
           | Inr ctx \<Rightarrow>
               (case InitGenesis_devnet pkg k bankKeeper ctx data of
                  Inl p \<Rightarrow> Inl p
                | Inr ctx \<Rightarrow> InitGenesis_contracts k ctx data)))"

text \<open>
  \<open>func InitGenesis(ctx, k, accountKeeper, bankKeeper, data) []abci.ValidatorUpdate\<close>.
\<close>

definition InitGenesis ::
  "('s, 'dm) Packages \<Rightarrow> 's \<Rightarrow> ('s, 'dm) Keeper \<Rightarrow> 's AccountKeeper \<Rightarrow> 's BankKeeper
     \<Rightarrow> GenesisState \<Rightarrow> 's aborted + ValidatorUpdate list \<times> 's" where
  "InitGenesis pkg ctx k accountKeeper bankKeeper data =
     (case InitGenesis_import pkg ctx k accountKeeper bankKeeper data of
        Inl p \<Rightarrow> Inl p
      | Inr ctx \<Rightarrow> InitGenesis_sequence pkg k accountKeeper ctx)"

section \<open>A concrete instance of the collaborators\<close>

text \<open>
  A small world to run \<open>InitGenesis\<close> in: the chain profile, the stores the keepers write
  and the sequence of the deployer account. It stands in for the keepers of the
  application in the examples below; the theorems hold for every keeper.
\<close>

record World =
  dymension :: bool
  devnet :: bool
  chainID_set :: bool
  params :: "Params option"
  auth_accounts :: "(AccAddress \<times> AccountI) list"
  code_store :: "(byte list \<times> byte list) list"
  state_store :: "(Address \<times> Hash \<times> byte list) list"
  bank_metadata :: "Metadata list"
  contracts :: "VirtualFrontierContract list"
  bank_contract_of_denom :: "(string \<times> Address) list"
  deployer_sequence :: "64 word"

definition empty_World :: World where
  "empty_World =
     \<lparr>dymension = False, devnet = False, chainID_set = False, params = None,
      auth_accounts = [], code_store = [], state_store = [], bank_metadata = [],
      contracts = [], bank_contract_of_denom = [], deployer_sequence = 0\<rparr>"

text \<open>\<open>common.HexToHash\<close>, as \<open>HexToAddress\<close> with 32 bytes.\<close>

definition HexToHash :: "string \<Rightarrow> Hash" where
  "HexToHash s =
     (let b = FromHex s;
          b = (if length b > 32 then drop (length b - 32) b else b)
      in replicate (32 - length b) 0 @ b)"

definition toUpper_char :: "char \<Rightarrow> char" where
  "toUpper_char c =
     (if 97 \<le> (of_char c :: nat) \<and> (of_char c :: nat) \<le> 122
      then char_of ((of_char c :: nat) - 32) else c)"

text \<open>A stand-in for Keccak-256 in the examples: 32 bytes that depend on the input.\<close>

definition example_hash :: "byte list \<Rightarrow> Hash" where
  "example_hash b = replicate 31 0 @ [of_nat (length b)]"

definition example_address :: "64 word \<Rightarrow> Address" where
  "example_address n = replicate 19 0 @ [ucast (n + 1)]"

definition example_Packages :: "(World, Metadata) Packages" where
  "example_Packages =
     \<lparr>IsOneOfDymensionChains = dymension,
      IsEthermintDevChain = devnet,
      ModuleName = ''evm'',
      ModuleVirtualFrontierContractDeployerName = ''vfc-deployer'',
      common_HexToAddress = HexToAddress,
      common_Hex2Bytes = Hex2Bytes,
      common_HexToHash = HexToHash,
      Keccak256Hash = example_hash,
      ToUpper = map toUpper_char,
      CollectMetadataForVirtualFrontierBankContract = (\<lambda>md. (md, DenomUnits md \<noteq> []))\<rparr>"

definition example_Keeper :: "(World, Metadata) Keeper" where
  "example_Keeper =
     \<lparr>WithChainID = (\<lambda>w. w\<lparr>chainID_set := True\<rparr>),
      SetParams = (\<lambda>w p. (w\<lparr>params := Some p\<rparr>, None)),
      SetCode = (\<lambda>w h c. w\<lparr>code_store := (h, c) # code_store w\<rparr>),
      SetState = (\<lambda>w a key v. w\<lparr>state_store := (a, key, v) # state_store w\<rparr>),
      GetVirtualFrontierBankContractAddressByDenom =
        (\<lambda>w denom. case map_of (bank_contract_of_denom w) denom of
                      None \<Rightarrow> (replicate 20 0, False)
                    | Some a \<Rightarrow> (a, True)),
      DeployNewVirtualFrontierBankContract =
        (\<lambda>w vfc meta dm.
           let a = example_address (deployer_sequence w) in
           (w\<lparr>contracts :=
                contracts w @
                  [\<lparr>VirtualFrontierContract.Address = ''0x'' @ EncodeToString a,
                    Active = Active vfc,
                    Type = VirtualFrontierContractTypeBankContract,
                    Metadata = map of_char (MinDenom meta)\<rparr>],
              bank_contract_of_denom := (MinDenom meta, a) # bank_contract_of_denom w,
              deployer_sequence := deployer_sequence w + 1\<rparr>,
            Inr a)),
      GenesisImportVirtualFrontierContracts =
        (\<lambda>w cs. (w\<lparr>contracts := contracts w @ cs,
                     deployer_sequence := deployer_sequence w + of_nat (length cs)\<rparr>, None)),
      PersistedVirtualFrontierContracts = contracts\<rparr>"

text \<open>
  The bulk import of the spec, which writes the records and leaves the sequence of the
  deployer account alone.
\<close>

definition example_Keeper_plain_import :: "(World, Metadata) Keeper" where
  "example_Keeper_plain_import =
     example_Keeper
       \<lparr>GenesisImportVirtualFrontierContracts :=
          (\<lambda>w cs. (w\<lparr>contracts := contracts w @ cs\<rparr>, None))\<rparr>"

definition example_AccountKeeper :: "World AccountKeeper" where
  "example_AccountKeeper =
     \<lparr>GetModuleAddress =
        (\<lambda>name. if name = ''evm'' then Some (replicate 19 0 @ [0xe0])
                 else if name = ''vfc-deployer'' then Some (replicate 19 0 @ [0xd0])
                 else None),
      GetAccount = (\<lambda>w a. map_of (auth_accounts w) a),
      GetModuleAccount =
        (\<lambda>w name. if name = ''vfc-deployer''
                   then Some \<lparr>GetSequence = deployer_sequence w\<rparr>
                   else if name = ''evm'' then Some \<lparr>GetSequence = 0\<rparr>
                   else None)\<rparr>"

definition example_BankKeeper :: "World BankKeeper" where
  "example_BankKeeper =
     \<lparr>GetDenomMetaData =
        (\<lambda>w denom. case find (\<lambda>md. Base md = denom) (bank_metadata w) of
                      None \<Rightarrow> (\<lparr>DenomUnits = [], Base = '''', Display = '''', Name = '''',
                                 Symbol = ''''\<rparr>, False)
                    | Some md \<Rightarrow> (md, True)),
      SetDenomMetaData = (\<lambda>w md. w\<lparr>bank_metadata := md # bank_metadata w\<rparr>)\<rparr>"

text \<open>A codec for the examples: the length of \<open>MinDenom\<close>, its bytes, the exponent, the name.\<close>

definition example_Codec :: Codec where
  "example_Codec =
     \<lparr>MustMarshal =
        (\<lambda>m. of_nat (length (MinDenom m)) # map of_char (MinDenom m) @
              [ucast (VFBankContractMetadata.Exponent m)] @ map of_char (DisplayName m)),
      Unmarshal =
        (\<lambda>bz. case bz of
                 [] \<Rightarrow> None
               | n # body \<Rightarrow>
                   if length body < unat n + 1 then None
                   else Some \<lparr>MinDenom = map (\<lambda>b. char_of (unat b)) (take (unat n) body),
                              VFBankContractMetadata.Exponent = ucast (body ! unat n),
                              DisplayName =
                                map (\<lambda>b. char_of (unat b)) (drop (unat n + 1) body)\<rparr>)\<rparr>"

subsection \<open>Genesis states of the examples\<close>

definition example_params :: Params where
  "example_params = \<lparr>EvmDenom = ''wei'', EnableCreate = False\<rparr>"

definition example_contract :: "string \<Rightarrow> VirtualFrontierContract" where
  "example_contract address =
     \<lparr>VirtualFrontierContract.Address = address, Active = True,
      Type = VirtualFrontierContractTypeBankContract,
      Metadata = MustMarshal example_Codec validVFBankContractMetadata\<rparr>"

definition example_address_text :: string where
  "example_address_text = ''405b96e2538ac85ee862e332fa634b158d013ae1''"

definition example_address_bytes :: Address where
  "example_address_bytes =
     [0x40, 0x5b, 0x96, 0xe2, 0x53, 0x8a, 0xc8, 0x5e, 0xe8, 0x62, 0xe3, 0x32, 0xfa, 0x63,
      0x4b, 0x15, 0x8d, 0x01, 0x3a, 0xe1]"

definition genesis_two_contracts :: GenesisState where
  "genesis_two_contracts =
     \<lparr>Accounts = [], Params = example_params,
      VirtualFrontierContracts =
        [example_contract ''0x405b96e2538ac85ee862e332fa634b158d013ae1'',
         example_contract ''0x405b96e2538ac85ee862e332fa634b158d013ae2'']\<rparr>"

definition genesis_enable_create :: GenesisState where
  "genesis_enable_create =
     \<lparr>Accounts = [], Params = \<lparr>EvmDenom = ''wei'', EnableCreate = True\<rparr>,
      VirtualFrontierContracts = []\<rparr>"

definition genesis_empty_denom :: GenesisState where
  "genesis_empty_denom =
     \<lparr>Accounts = [], Params = \<lparr>EvmDenom = '''', EnableCreate = False\<rparr>,
      VirtualFrontierContracts = []\<rparr>"

definition genesis_plain :: GenesisState where
  "genesis_plain = \<lparr>Accounts = [], Params = example_params, VirtualFrontierContracts = []\<rparr>"

text \<open>
  Two account entries for one Eth account whose recorded code hash is that of no code
  in the examples: the first has no code, the second has the code \<open>6001\<close>.
\<close>

definition account_without_code :: GenesisAccount where
  "account_without_code =
     \<lparr>GenesisAccount.Address = ''0x405b96e2538ac85ee862e332fa634b158d013ae1'', Code = '''',
      Storage = [\<lparr>Key = ''0x01'', Value = ''0x02''\<rparr>]\<rparr>"

definition account_with_code :: GenesisAccount where
  "account_with_code =
     \<lparr>GenesisAccount.Address = ''0x405b96e2538ac85ee862e332fa634b158d013ae1'', Code = ''6001'',
      Storage = []\<rparr>"

definition genesis_accounts :: GenesisState where
  "genesis_accounts =
     \<lparr>Accounts = [account_without_code, account_with_code], Params = example_params,
      VirtualFrontierContracts = []\<rparr>"

definition world_with_account :: World where
  "world_with_account =
     empty_World
       \<lparr>auth_accounts :=
          [(HexToAddress ''0x405b96e2538ac85ee862e332fa634b158d013ae1'',
            EthAccount (replicate 32 0xff))]\<rparr>"

subsection \<open>Worlds of the examples\<close>

definition dymension_World :: World where
  "dymension_World = empty_World\<lparr>dymension := True\<rparr>"

definition devnet_World :: World where
  "devnet_World = empty_World\<lparr>devnet := True\<rparr>"

text \<open>The empty world after the chain id and the parameters are set.\<close>

definition world_params_set :: World where
  "world_params_set = empty_World\<lparr>chainID_set := True, params := Some example_params\<rparr>"

text \<open>The world after the two records of \<open>genesis_two_contracts\<close> are imported.\<close>

definition world_two_contracts :: "64 word \<Rightarrow> World" where
  "world_two_contracts sequence =
     empty_World
       \<lparr>chainID_set := True, params := Some example_params,
        contracts := VirtualFrontierContracts genesis_two_contracts,
        deployer_sequence := sequence\<rparr>"

text \<open>The development world after the bank contract of \<open>wei\<close> is deployed.\<close>

definition world_deployed :: World where
  "world_deployed =
     devnet_World
       \<lparr>bank_metadata :=
          [\<lparr>DenomUnits = [\<lparr>Denom = ''wei'', Exponent = 0\<rparr>, \<lparr>Denom = ''EI'', Exponent = 18\<rparr>],
            Base = ''wei'', Display = ''EI'', Name = ''EI'', Symbol = ''EI''\<rparr>],
        contracts :=
          [\<lparr>VirtualFrontierContract.Address = ''0x0000000000000000000000000000000000000001'',
            Active = True, Type = 1, Metadata = [119, 101, 105]\<rparr>],
        bank_contract_of_denom := [(''wei'', replicate 19 0 @ [1])],
        deployer_sequence := 1\<rparr>"

definition world_after_setup :: World where
  "world_after_setup = world_with_account\<lparr>chainID_set := True, params := Some example_params\<rparr>"

definition world_after_first_account :: World where
  "world_after_first_account =
     world_after_setup
       \<lparr>code_store := [(example_hash [], [])],
        state_store :=
          [(HexToAddress ''0x405b96e2538ac85ee862e332fa634b158d013ae1'',
            HexToHash ''0x01'', HexToHash ''0x02'')]\<rparr>"

definition world_empty_denom :: World where
  "world_empty_denom =
     devnet_World\<lparr>chainID_set := True, params := Some \<lparr>EvmDenom = '''', EnableCreate = False\<rparr>\<rparr>"

section \<open>Properties of the hexadecimal encoding\<close>

lemma hi_nibble_less: "unat (drop_bit 4 (v :: byte)) < 16"
proof -
  have "unat v < 256"
    using unsigned_less [of v, where ?'a = nat] by simp
  then have "unat v div 16 < 16" by simp
  moreover have "unat (drop_bit 4 v) = unat v div 16"
    by (simp add: drop_bit_eq_div unat_div)
  ultimately show ?thesis by (simp only:)
qed

lemma lo_nibble_eq: "(v :: byte) AND 0x0f = take_bit 4 v"
  by (simp add: take_bit_eq_mask mask_eq_exp_minus_1)

lemma lo_nibble_less: "unat ((v :: byte) AND 0x0f) < 16"
proof -
  have "unat (take_bit 4 v) = take_bit 4 (unat v)"
    by (simp only: unsigned_take_bit_eq)
  also have "\<dots> = unat v mod 16" by (simp add: take_bit_eq_mod)
  finally have "unat (v AND 0x0f) = unat v mod 16"
    by (simp only: lo_nibble_eq)
  moreover have "unat v mod 16 < 16" by simp
  ultimately show ?thesis by (simp only:)
qed

lemma byte_from_nibbles:
  fixes a b :: byte
  assumes "drop_bit 4 a = drop_bit 4 b" and "a AND 0x0f = b AND 0x0f"
  shows "a = b"
proof -
  have "v = push_bit 4 (drop_bit 4 v) + take_bit 4 v" for v :: byte
    by (simp add: bits_ident)
  then show ?thesis
    using assms lo_nibble_eq by metis
qed

lemma distinct_hextable: "distinct hextable"
  by (simp add: hextable_def)

lemma length_hextable: "length hextable = 16"
  by (simp add: hextable_def)

lemma hextable_inj:
  "i < 16 \<Longrightarrow> j < 16 \<Longrightarrow> hextable ! i = hextable ! j \<Longrightarrow> i = j"
  using distinct_hextable length_hextable by (simp add: nth_eq_iff_index_eq)

lemma EncodeToString_inj: "EncodeToString xs = EncodeToString ys \<Longrightarrow> xs = ys"
proof (induction xs arbitrary: ys)
  case Nil
  then show ?case by (cases ys) simp_all
next
  case (Cons x xs)
  then obtain y ys' where ys: "ys = y # ys'"
    by (cases ys) simp_all
  from Cons.prems ys
  have hi: "hextable ! unat (drop_bit 4 x) = hextable ! unat (drop_bit 4 y)"
    and lo: "hextable ! unat (x AND 0x0f) = hextable ! unat (y AND 0x0f)"
    and rest: "EncodeToString xs = EncodeToString ys'"
    by simp_all
  have "unat (drop_bit 4 x) = unat (drop_bit 4 y)"
    using hi hi_nibble_less hextable_inj by blast
  then have hi': "drop_bit 4 x = drop_bit 4 y"
    by (simp only: word_unat_eq_iff)
  have "unat (x AND 0x0f) = unat (y AND 0x0f)"
    using lo lo_nibble_less hextable_inj by blast
  then have lo': "x AND 0x0f = y AND 0x0f"
    by (simp only: word_unat_eq_iff)
  from hi' lo' have "x = y"
    by (rule byte_from_nibbles)
  with Cons.IH [OF rest] ys show ?case by simp
qed

lemma hextable_lower: "i < 16 \<Longrightarrow> toLower_char (hextable ! i) = hextable ! i"
proof -
  have "\<forall>c \<in> set hextable. toLower_char c = c"
    by (simp add: hextable_def toLower_char_def)
  moreover assume "i < 16"
  then have "hextable ! i \<in> set hextable"
    by (intro nth_mem) (simp add: hextable_def)
  ultimately show ?thesis by blast
qed

lemma ToLower_EncodeToString: "ToLower (EncodeToString xs) = EncodeToString xs"
  by (induction xs)
    (simp_all add: ToLower_def hextable_lower hi_nibble_less lo_nibble_less)

lemma selector_eq_iff:
  "ToLower (EncodeToString xs) = EncodeToString ys \<longleftrightarrow> xs = ys"
  using EncodeToString_inj by (auto simp: ToLower_EncodeToString)

lemma selector_texts:
  "''06fdde03'' = EncodeToString [0x06, 0xfd, 0xde, 0x03]"
  "''95d89b41'' = EncodeToString [0x95, 0xd8, 0x9b, 0x41]"
  "''313ce567'' = EncodeToString [0x31, 0x3c, 0xe5, 0x67]"
  "''18160ddd'' = EncodeToString [0x18, 0x16, 0x0d, 0xdd]"
  "''70a08231'' = EncodeToString [0x70, 0xa0, 0x82, 0x31]"
  "''a9059cbb'' = EncodeToString [0xa9, 0x05, 0x9c, 0xbb]"
  by code_simp+

text \<open>
  C3. For every payload, \<open>GetMethodFromSignature\<close> answers \<open>(VFBCmUnknown, false)\<close> when
  the payload has fewer than four bytes; otherwise the answer is decided by the first four
  bytes alone: the method paired with the selector when they are one of the six
  selectors 06fdde03 (name), 95d89b41 (symbol), 313ce567 (decimals), 18160ddd
  (totalSupply), 70a08231 (balanceOf), a9059cbb (transfer), and
  \<open>(VFBCmUnknown, false)\<close> for every other four bytes.
\<close>

theorem GetMethodFromSignature_selectors:
  "(length input < 4 \<longrightarrow> GetMethodFromSignature m input = (VFBCmUnknown, False)) \<and>
   (4 \<le> length input \<longrightarrow>
      GetMethodFromSignature m input =
        (if take 4 input = [0x06, 0xfd, 0xde, 0x03] then (VFBCmName, True)
         else if take 4 input = [0x95, 0xd8, 0x9b, 0x41] then (VFBCmSymbol, True)
         else if take 4 input = [0x31, 0x3c, 0xe5, 0x67] then (VFBCmDecimals, True)
         else if take 4 input = [0x18, 0x16, 0x0d, 0xdd] then (VFBCmTotalSupply, True)
         else if take 4 input = [0x70, 0xa0, 0x82, 0x31] then (VFBCmBalanceOf, True)
         else if take 4 input = [0xa9, 0x05, 0x9c, 0xbb] then (VFBCmTransfer, True)
         else (VFBCmUnknown, False)))"
  unfolding GetMethodFromSignature_def Let_def selector_texts selector_eq_iff
  by simp

theorem GetMethodFromSignature_selectors_witness:
  "GetMethodFromSignature validVFBankContractMetadata [0x06, 0xfd, 0xde] = (VFBCmUnknown, False) \<and>
   GetMethodFromSignature validVFBankContractMetadata [] = (VFBCmUnknown, False) \<and>
   GetMethodFromSignature validVFBankContractMetadata [0x06, 0xfd, 0xde, 0x03] = (VFBCmName, True) \<and>
   GetMethodFromSignature validVFBankContractMetadata [0x95, 0xd8, 0x9b, 0x41, 0x00] = (VFBCmSymbol, True) \<and>
   GetMethodFromSignature validVFBankContractMetadata [0x31, 0x3c, 0xe5, 0x67] = (VFBCmDecimals, True) \<and>
   GetMethodFromSignature validVFBankContractMetadata [0x18, 0x16, 0x0d, 0xdd] = (VFBCmTotalSupply, True) \<and>
   GetMethodFromSignature validVFBankContractMetadata [0x70, 0xa0, 0x82, 0x31, 0xff, 0xff] = (VFBCmBalanceOf, True) \<and>
   GetMethodFromSignature validVFBankContractMetadata [0xa9, 0x05, 0x9c, 0xbb] = (VFBCmTransfer, True) \<and>
   GetMethodFromSignature validVFBankContractMetadata [0xde, 0xad, 0xbe, 0xef] = (VFBCmUnknown, False)"
  using GetMethodFromSignature_selectors [of "[0x06, 0xfd, 0xde]" validVFBankContractMetadata]
    GetMethodFromSignature_selectors [of "[]" validVFBankContractMetadata]
    GetMethodFromSignature_selectors [of "[0x06, 0xfd, 0xde, 0x03]" validVFBankContractMetadata]
    GetMethodFromSignature_selectors [of "[0x95, 0xd8, 0x9b, 0x41, 0x00]" validVFBankContractMetadata]
    GetMethodFromSignature_selectors [of "[0x31, 0x3c, 0xe5, 0x67]" validVFBankContractMetadata]
    GetMethodFromSignature_selectors [of "[0x18, 0x16, 0x0d, 0xdd]" validVFBankContractMetadata]
    GetMethodFromSignature_selectors [of "[0x70, 0xa0, 0x82, 0x31, 0xff, 0xff]" validVFBankContractMetadata]
    GetMethodFromSignature_selectors [of "[0xa9, 0x05, 0x9c, 0xbb]" validVFBankContractMetadata]
    GetMethodFromSignature_selectors [of "[0xde, 0xad, 0xbe, 0xef]" validVFBankContractMetadata]
  by simp

text \<open>
  C9. For every payload, \<open>found\<close> is true exactly when the returned method is not
  \<open>VFBCmUnknown\<close>.
\<close>

theorem GetMethodFromSignature_found_iff:
  "snd (GetMethodFromSignature m input) \<longleftrightarrow>
     fst (GetMethodFromSignature m input) \<noteq> VFBCmUnknown"
  by (simp add: GetMethodFromSignature_def Let_def)

text \<open>
  C6. For every metadata value, \<open>ValidateBasic\<close> returns an error exactly when
  \<open>MinDenom\<close> is empty; \<open>Exponent\<close> and \<open>DisplayName\<close> play no part.
\<close>

theorem ValidateBasic_fails_iff:
  "(ValidateBasic m \<noteq> None \<longleftrightarrow> MinDenom m = []) \<and>
   ValidateBasic (m\<lparr>VFBankContractMetadata.Exponent := e, DisplayName := d\<rparr>) = ValidateBasic m"
  by (simp add: ValidateBasic_def)

section \<open>Properties of the address text\<close>

lemma hextable_digits:
  "list_all (\<lambda>i. fromHexChar (hextable ! i) = Some (of_nat i) \<and> isHexCharacter (hextable ! i))
     [0..<16]"
  by code_simp

lemma fromHexChar_hextable: "i < 16 \<Longrightarrow> fromHexChar (hextable ! i) = Some (of_nat i)"
  using hextable_digits by (simp add: list_all_iff)

lemma isHexCharacter_hextable: "i < 16 \<Longrightarrow> isHexCharacter (hextable ! i)"
  using hextable_digits by (simp add: list_all_iff)

lemma byte_compose: "push_bit 4 (drop_bit 4 v) OR (v AND 0x0f) = (v :: byte)"
proof -
  have "push_bit 4 (drop_bit 4 v) OR take_bit 4 v = v"
    by (rule bit_eqI) (auto simp: bit_simps)
  then show ?thesis by (simp only: lo_nibble_eq)
qed

lemma word_of_nat_unat_byte: "word_of_nat (unat w) = (w :: byte)"
  by simp

lemma Hex2Bytes_EncodeToString: "Hex2Bytes (EncodeToString bs) = bs"
proof (induction bs)
  case Nil
  show ?case by simp
next
  case (Cons v bs)
  have "push_bit 4 (word_of_nat (unat (drop_bit 4 v))) OR word_of_nat (unat (v AND 0x0f)) = v"
    by (simp only: word_of_nat_unat_byte byte_compose)
  with Cons show ?case
    by (simp add: fromHexChar_hextable hi_nibble_less lo_nibble_less)
qed

lemma length_EncodeToString: "length (EncodeToString bs) = 2 * length bs"
  by (induction bs) simp_all

lemma isHex_EncodeToString: "list_all isHexCharacter (EncodeToString bs)"
  by (induction bs) (simp_all add: isHexCharacter_hextable hi_nibble_less lo_nibble_less)








lemma isHexCharacter_not_x:
  assumes "isHexCharacter c"
  shows "c \<noteq> CHR ''x'' \<and> c \<noteq> CHR ''X''"
  using assms by (auto simp: isHexCharacter_def)

lemma has0xPrefix_0x: "has0xPrefix (''0x'' @ t)"
  by (simp add: has0xPrefix_def)

lemma hex_text_no_prefix: "list_all isHexCharacter t \<Longrightarrow> \<not> has0xPrefix t"
proof (cases t)
  case Nil
  then show ?thesis by (simp add: has0xPrefix_def)
next
  case (Cons a t')
  assume h: "list_all isHexCharacter t"
  show ?thesis
  proof (cases t')
    case Nil
    with Cons show ?thesis by (simp add: has0xPrefix_def)
  next
    case (Cons b t'')
    with \<open>t = a # t'\<close> h have "isHexCharacter b" by simp
    then have "b \<noteq> CHR ''x'' \<and> b \<noteq> CHR ''X''" by (rule isHexCharacter_not_x)
    with Cons \<open>t = a # t'\<close> show ?thesis by (simp add: has0xPrefix_def)
  qed
qed




lemma length_BytesToAddress: "length (BytesToAddress b) = 20"
  by (simp add: BytesToAddress_def AddressLength_def Let_def)

lemma HexToAddress_EncodeToString:
  "length bs = 20 \<Longrightarrow> HexToAddress (CHR ''0'' # CHR ''x'' # EncodeToString bs) = bs"
  by (simp add: HexToAddress_def FromHex_def has0xPrefix_def length_EncodeToString
      Hex2Bytes_EncodeToString BytesToAddress_def AddressLength_def)

lemma FromHex_0x: "\<not> has0xPrefix h \<Longrightarrow> FromHex (CHR ''0'' # CHR ''x'' # h) = FromHex h"
  by (simp add: FromHex_def has0xPrefix_0x [simplified])

section \<open>Properties of the contract record\<close>









lemma ToLower_test_addresses:
  "ToLower ''0x405b96e2538ac85ee862e332fa634b158d013ae1''
     = ''0x405b96e2538ac85ee862e332fa634b158d013ae1''"
  "ToLower ''0xAA5b96e2538ac85ee862e332fa634b158d013aBB''
     = ''0xaa5b96e2538ac85ee862e332fa634b158d013abb''"
  by code_simp+

lemma IsHexAddress_test_addresses:
  "IsHexAddress ''0x405b96e2538ac85ee862e332fa634b158d013ae1''"
  "\<not> IsHexAddress ''0x405b96e2538ac85ee862e332fa634b158d013ae100''"
  "IsHexAddress ''405b96e2538ac85ee862e332fa634b158d013ae1''"
  "IsHexAddress ''0xAA5b96e2538ac85ee862e332fa634b158d013aBB''"
  "\<not> IsHexAddress ''''"
  by code_simp+

text \<open>
  The model of \<open>ValidateBasic\<close> passes every row of the test table, with any codec that
  reads back the two metadata messages of the test.
\<close>

lemma ValidateBasic_tests_pass:
  assumes "Unmarshal cdc (MustMarshal cdc validVFBankContractMetadata)
             = Some validVFBankContractMetadata"
    and "Unmarshal cdc (MustMarshal cdc invalidVFBankContractMetadata)
             = Some invalidVFBankContractMetadata"
  shows "list_all (ValidateBasic_test_passes cdc) (ValidateBasic_tests cdc)"
proof -
  have v: "ValidateBasic validVFBankContractMetadata = None"
    "ValidateBasic invalidVFBankContractMetadata \<noteq> None"
    by (simp_all add: ValidateBasic_def validVFBankContractMetadata_def
        invalidVFBankContractMetadata_def)
  then obtain err where e: "ValidateBasic invalidVFBankContractMetadata = Some err"
    by blast
  show ?thesis
    using assms v(1) e
    by (simp add: ValidateBasic_tests_def ValidateBasic_test_passes_def Let_def
        VirtualFrontierContract_ValidateBasic_def nil_address_text_def
        ToLower_test_addresses IsHexAddress_test_addresses
        VirtualFrontierContractTypeBankContract_def VirtualFrontierContractTypeUnknown_def)
qed

lemma ContractAddress_tests_pass:
  "list_all ContractAddress_test_passes ContractAddress_tests"
  by code_simp

text \<open>
  C5. \<open>ContractAddress\<close> reads the address text with or without the \<open>0x\<close> prefix: both
  texts give the same address, and the hexadecimal text of 20 bytes gives these bytes.
  It always returns 20 bytes, never an error; for the empty text they are all zero. The
  zero address is rejected by \<open>ValidateBasic\<close>, with the nil-address message.
\<close>

theorem ContractAddress_optional_prefix:
  "(\<not> has0xPrefix h \<longrightarrow>
      ContractAddress (m\<lparr>VirtualFrontierContract.Address := ''0x'' @ h\<rparr>) =
      ContractAddress (m\<lparr>VirtualFrontierContract.Address := h\<rparr>)) \<and>
   (length bs = 20 \<longrightarrow>
      ContractAddress (m\<lparr>VirtualFrontierContract.Address := ''0x'' @ EncodeToString bs\<rparr>) = bs \<and>
      ContractAddress (m\<lparr>VirtualFrontierContract.Address := EncodeToString bs\<rparr>) = bs) \<and>
   ContractAddress (m\<lparr>VirtualFrontierContract.Address := ''''\<rparr>) = replicate 20 0 \<and>
   length (ContractAddress m) = 20 \<and>
   ContractAddress (m\<lparr>VirtualFrontierContract.Address := nil_address_text\<rparr>) = replicate 20 0 \<and>
   VirtualFrontierContract_ValidateBasic cdc
     (m\<lparr>VirtualFrontierContract.Address := nil_address_text\<rparr>) = Some ''nil address''"
proof (intro conjI impI)
  show "ContractAddress (m\<lparr>VirtualFrontierContract.Address := ''0x'' @ h\<rparr>) =
      ContractAddress (m\<lparr>VirtualFrontierContract.Address := h\<rparr>)" if "\<not> has0xPrefix h"
    using that by (simp add: ContractAddress_def HexToAddress_def FromHex_0x)
  show "ContractAddress (m\<lparr>VirtualFrontierContract.Address := ''0x'' @ EncodeToString bs\<rparr>) = bs"
    if "length bs = 20"
    using that by (simp add: ContractAddress_def HexToAddress_EncodeToString)
  show "ContractAddress (m\<lparr>VirtualFrontierContract.Address := EncodeToString bs\<rparr>) = bs"
    if "length bs = 20"
  proof -
    have "\<not> has0xPrefix (EncodeToString bs)"
      using isHex_EncodeToString by (rule hex_text_no_prefix)
    then have "HexToAddress (EncodeToString bs) =
        HexToAddress (CHR ''0'' # CHR ''x'' # EncodeToString bs)"
      by (simp add: HexToAddress_def FromHex_0x)
    with that show ?thesis
      by (simp add: ContractAddress_def HexToAddress_EncodeToString)
  qed
  show "ContractAddress (m\<lparr>VirtualFrontierContract.Address := ''''\<rparr>) = replicate 20 0"
    by (simp add: ContractAddress_def HexToAddress_def FromHex_def has0xPrefix_def
        BytesToAddress_def AddressLength_def)
  show "length (ContractAddress m) = 20"
    by (simp add: ContractAddress_def HexToAddress_def length_BytesToAddress)
  have "HexToAddress nil_address_text = replicate 20 0"
    by code_simp
  then show "ContractAddress (m\<lparr>VirtualFrontierContract.Address := nil_address_text\<rparr>)
      = replicate 20 0"
    by (simp add: ContractAddress_def)
  show "VirtualFrontierContract_ValidateBasic cdc
      (m\<lparr>VirtualFrontierContract.Address := nil_address_text\<rparr>) = Some ''nil address''"
    by (simp add: VirtualFrontierContract_ValidateBasic_def)
qed

theorem ContractAddress_optional_prefix_witness:
  "\<not> has0xPrefix example_address_text \<and>
   ContractAddress
     ((example_contract '''')\<lparr>VirtualFrontierContract.Address := ''0x'' @ example_address_text\<rparr>) =
   ContractAddress
     ((example_contract '''')\<lparr>VirtualFrontierContract.Address := example_address_text\<rparr>) \<and>
   length example_address_bytes = 20 \<and>
   EncodeToString example_address_bytes = example_address_text \<and>
   ContractAddress
     ((example_contract '''')\<lparr>VirtualFrontierContract.Address :=
        ''0x'' @ EncodeToString example_address_bytes\<rparr>) = example_address_bytes \<and>
   ContractAddress
     ((example_contract '''')\<lparr>VirtualFrontierContract.Address :=
        EncodeToString example_address_bytes\<rparr>) = example_address_bytes \<and>
   ContractAddress ((example_contract '''')\<lparr>VirtualFrontierContract.Address := ''''\<rparr>)
     = replicate 20 0 \<and>
   VirtualFrontierContract_ValidateBasic example_Codec
     ((example_contract '''')\<lparr>VirtualFrontierContract.Address := nil_address_text\<rparr>)
     = Some ''nil address''"
proof -
  have no: "\<not> has0xPrefix example_address_text"
    by (simp add: has0xPrefix_def example_address_text_def)
  have len: "length example_address_bytes = 20"
    by (simp add: example_address_bytes_def)
  have enc: "EncodeToString example_address_bytes = example_address_text"
    by code_simp
  from
    ContractAddress_optional_prefix [of example_address_text "example_contract ''''"
      example_address_bytes example_Codec]
    no len enc
  show ?thesis
    by blast
qed


subsection \<open>The rows of the test table, through the theorem\<close>





section \<open>Properties of InitGenesis\<close>

lemma InitGenesis_accounts_append:
  "InitGenesis_accounts pkg k accountKeeper ctx (xs @ ys) =
     (case InitGenesis_accounts pkg k accountKeeper ctx xs of
        Inl p \<Rightarrow> Inl p
      | Inr ctx' \<Rightarrow> InitGenesis_accounts pkg k accountKeeper ctx' ys)"
  by (induction xs arbitrary: ctx) (simp_all split: sum.splits)

lemma iterate_records_count:
  "iterate_records cs (\<lambda>_ n. (n + 1, False)) (acc :: 64 word) = acc + of_nat (length cs)"
  by (induction cs arbitrary: acc) (simp_all add: algebra_simps)

lemma deployedVFCsCount_eq:
  "IterateVirtualFrontierContracts k ctx (\<lambda>_ n. (n + 1, False)) (0 :: 64 word) =
     of_nat (length (PersistedVirtualFrontierContracts k ctx))"
  by (simp add: IterateVirtualFrontierContracts_def iterate_records_count)

lemma InitGenesis_sequence_cases:
  assumes "GetModuleAccount accountKeeper ctx (ModuleVirtualFrontierContractDeployerName pkg)
             = Some acc"
  shows "InitGenesis_sequence pkg k accountKeeper ctx =
     (if GetSequence acc \<noteq> of_nat (length (PersistedVirtualFrontierContracts k ctx))
      then Inl (PanicInvalidSequence
                  (of_nat (length (PersistedVirtualFrontierContracts k ctx)))
                  (GetSequence acc), ctx)
      else Inr ([], ctx))"
  using assms by (simp add: InitGenesis_sequence_def deployedVFCsCount_eq)

lemma InitGenesis_sequence_returns:
  assumes "InitGenesis_sequence pkg k accountKeeper ctx = Inr (updates, ctx')"
  shows "updates = [] \<and> ctx' = ctx \<and>
     (\<exists>acc. GetModuleAccount accountKeeper ctx (ModuleVirtualFrontierContractDeployerName pkg)
               = Some acc \<and>
            GetSequence acc = of_nat (length (PersistedVirtualFrontierContracts k ctx)))"
  using assms
  by (auto simp: InitGenesis_sequence_def deployedVFCsCount_eq Let_def
      split: option.splits if_splits)

text \<open>
  The sequence check against the persisted records, for every keeper.
\<close>

lemma InitGenesis_sequence_check:
  "(InitGenesis_import pkg ctx k accountKeeper bankKeeper data = Inr ctx' \<and>
    GetModuleAccount accountKeeper ctx' (ModuleVirtualFrontierContractDeployerName pkg)
      = Some acc \<longrightarrow>
      ((\<exists>p. InitGenesis pkg ctx k accountKeeper bankKeeper data = Inl p) \<longleftrightarrow>
         GetSequence acc \<noteq> of_nat (length (PersistedVirtualFrontierContracts k ctx'))) \<and>
      (GetSequence acc \<noteq> of_nat (length (PersistedVirtualFrontierContracts k ctx')) \<longrightarrow>
         InitGenesis pkg ctx k accountKeeper bankKeeper data =
           Inl (PanicInvalidSequence
                  (of_nat (length (PersistedVirtualFrontierContracts k ctx')))
                  (GetSequence acc), ctx')) \<and>
      (GetSequence acc = of_nat (length (PersistedVirtualFrontierContracts k ctx')) \<longrightarrow>
         InitGenesis pkg ctx k accountKeeper bankKeeper data = Inr ([], ctx'))) \<and>
   (InitGenesis pkg ctx k accountKeeper bankKeeper data = Inr (updates, ctx') \<longrightarrow>
      updates = [] \<and>
      InitGenesis_import pkg ctx k accountKeeper bankKeeper data = Inr ctx' \<and>
      (\<exists>acc. GetModuleAccount accountKeeper ctx'
                (ModuleVirtualFrontierContractDeployerName pkg) = Some acc \<and>
             GetSequence acc = of_nat (length (PersistedVirtualFrontierContracts k ctx')) \<and>
             (length (PersistedVirtualFrontierContracts k ctx') < 2 ^ 64 \<longrightarrow>
                unat (GetSequence acc) = length (PersistedVirtualFrontierContracts k ctx'))))"
proof (intro conjI impI)
  assume h: "InitGenesis_import pkg ctx k accountKeeper bankKeeper data = Inr ctx' \<and>
    GetModuleAccount accountKeeper ctx' (ModuleVirtualFrontierContractDeployerName pkg)
      = Some acc"
  then have eq: "InitGenesis pkg ctx k accountKeeper bankKeeper data =
      InitGenesis_sequence pkg k accountKeeper ctx'"
    by (simp add: InitGenesis_def)
  from h have acc: "GetModuleAccount accountKeeper ctx'
      (ModuleVirtualFrontierContractDeployerName pkg) = Some acc"
    by simp
  show "(\<exists>p. InitGenesis pkg ctx k accountKeeper bankKeeper data = Inl p) \<longleftrightarrow>
      GetSequence acc \<noteq> of_nat (length (PersistedVirtualFrontierContracts k ctx'))"
    by (simp add: eq InitGenesis_sequence_cases [OF acc])
  {
    assume "GetSequence acc \<noteq> of_nat (length (PersistedVirtualFrontierContracts k ctx'))"
    then show "InitGenesis pkg ctx k accountKeeper bankKeeper data =
        Inl (PanicInvalidSequence
               (of_nat (length (PersistedVirtualFrontierContracts k ctx')))
               (GetSequence acc), ctx')"
      by (simp add: eq InitGenesis_sequence_cases [OF acc])
  }
  {
    assume "GetSequence acc = of_nat (length (PersistedVirtualFrontierContracts k ctx'))"
    then show "InitGenesis pkg ctx k accountKeeper bankKeeper data = Inr ([], ctx')"
      by (simp add: eq InitGenesis_sequence_cases [OF acc])
  }
next
  assume r: "InitGenesis pkg ctx k accountKeeper bankKeeper data = Inr (updates, ctx')"
  then obtain ctx1 where
    imp: "InitGenesis_import pkg ctx k accountKeeper bankKeeper data = Inr ctx1" and
    sq: "InitGenesis_sequence pkg k accountKeeper ctx1 = Inr (updates, ctx')"
    by (auto simp: InitGenesis_def split: sum.splits)
  from InitGenesis_sequence_returns [OF sq] obtain acc where
    u: "updates = []" and c: "ctx' = ctx1" and
    a: "GetModuleAccount accountKeeper ctx1
          (ModuleVirtualFrontierContractDeployerName pkg) = Some acc" and
    s: "GetSequence acc = of_nat (length (PersistedVirtualFrontierContracts k ctx1))"
    by blast
  show "updates = []" by (rule u)
  show "InitGenesis_import pkg ctx k accountKeeper bankKeeper data = Inr ctx'"
    using imp c by simp
  have "length (PersistedVirtualFrontierContracts k ctx1) < 2 ^ 64 \<longrightarrow>
      unat (GetSequence acc) = length (PersistedVirtualFrontierContracts k ctx1)"
    by (simp add: s unat_of_nat)
  with a s c
  show "\<exists>acc. GetModuleAccount accountKeeper ctx'
                (ModuleVirtualFrontierContractDeployerName pkg) = Some acc \<and>
             GetSequence acc = of_nat (length (PersistedVirtualFrontierContracts k ctx')) \<and>
             (length (PersistedVirtualFrontierContracts k ctx') < 2 ^ 64 \<longrightarrow>
                unat (GetSequence acc) = length (PersistedVirtualFrontierContracts k ctx'))"
    by blast
qed

text \<open>
  C1. Once the import has gone through (lines 43 to 156) and the deployer module account
  is there, \<open>InitGenesis\<close> counts every persisted record and panics exactly when the
  count differs from the sequence of the deployer module account; the panic carries
  both numbers. So when \<open>InitGenesis\<close> returns, the sequence is the number of persisted
  records (as a \<open>uint64\<close>; the number itself when it is below \<open>2 ^ 64\<close>), and the
  validator updates are empty. In particular, when the persisted records are the \<open>N\<close>
  records of the genesis state, \<open>InitGenesis\<close> returns only if the sequence is \<open>N\<close>, and
  panics with \<open>N\<close> and the sequence when they differ, whatever the sequence was at the
  start. The persisted records are those \<open>N\<close> records when none is persisted before the
  bulk import and the bulk import writes the records in their order.
\<close>

theorem InitGenesis_deployer_sequence:
  "(InitGenesis_import pkg ctx k accountKeeper bankKeeper data = Inr ctx' \<and>
    GetModuleAccount accountKeeper ctx' (ModuleVirtualFrontierContractDeployerName pkg)
      = Some acc \<longrightarrow>
      ((\<exists>p. InitGenesis pkg ctx k accountKeeper bankKeeper data = Inl p) \<longleftrightarrow>
         GetSequence acc \<noteq> of_nat (length (PersistedVirtualFrontierContracts k ctx'))) \<and>
      (GetSequence acc \<noteq> of_nat (length (PersistedVirtualFrontierContracts k ctx')) \<longrightarrow>
         InitGenesis pkg ctx k accountKeeper bankKeeper data =
           Inl (PanicInvalidSequence
                  (of_nat (length (PersistedVirtualFrontierContracts k ctx')))
                  (GetSequence acc), ctx')) \<and>
      (GetSequence acc = of_nat (length (PersistedVirtualFrontierContracts k ctx')) \<longrightarrow>
         InitGenesis pkg ctx k accountKeeper bankKeeper data = Inr ([], ctx'))) \<and>
   (InitGenesis pkg ctx k accountKeeper bankKeeper data = Inr (updates, ctx') \<longrightarrow>
      updates = [] \<and>
      InitGenesis_import pkg ctx k accountKeeper bankKeeper data = Inr ctx' \<and>
      (\<exists>acc. GetModuleAccount accountKeeper ctx'
                (ModuleVirtualFrontierContractDeployerName pkg) = Some acc \<and>
             GetSequence acc = of_nat (length (PersistedVirtualFrontierContracts k ctx')) \<and>
             (length (PersistedVirtualFrontierContracts k ctx') < 2 ^ 64 \<longrightarrow>
                unat (GetSequence acc) = length (PersistedVirtualFrontierContracts k ctx')))) \<and>
   (InitGenesis pkg ctx k accountKeeper bankKeeper data = Inr (updates, ctx') \<and>
    length (PersistedVirtualFrontierContracts k ctx') = length (VirtualFrontierContracts data)
    \<longrightarrow>
      (\<exists>acc. GetModuleAccount accountKeeper ctx'
                (ModuleVirtualFrontierContractDeployerName pkg) = Some acc \<and>
             GetSequence acc = of_nat (length (VirtualFrontierContracts data)) \<and>
             (length (VirtualFrontierContracts data) < 2 ^ 64 \<longrightarrow>
                unat (GetSequence acc) = length (VirtualFrontierContracts data)))) \<and>
   (InitGenesis_import pkg ctx k accountKeeper bankKeeper data = Inr ctx' \<and>
    GetModuleAccount accountKeeper ctx' (ModuleVirtualFrontierContractDeployerName pkg)
      = Some acc \<and>
    length (PersistedVirtualFrontierContracts k ctx') = length (VirtualFrontierContracts data) \<and>
    GetSequence acc \<noteq> of_nat (length (VirtualFrontierContracts data)) \<longrightarrow>
      InitGenesis pkg ctx k accountKeeper bankKeeper data =
        Inl (PanicInvalidSequence (of_nat (length (VirtualFrontierContracts data)))
               (GetSequence acc), ctx')) \<and>
   (InitGenesis_contracts k ctx0 data = Inr ctx' \<and>
    PersistedVirtualFrontierContracts k ctx0 = [] \<and>
    bulk_import_in_order k ctx0 (VirtualFrontierContracts data) \<longrightarrow>
      PersistedVirtualFrontierContracts k ctx' = VirtualFrontierContracts data)"
proof -
  note check = InitGenesis_sequence_check [of pkg ctx k accountKeeper bankKeeper data ctx' acc
      updates]
  have returns: "\<exists>acc. GetModuleAccount accountKeeper ctx'
                (ModuleVirtualFrontierContractDeployerName pkg) = Some acc \<and>
             GetSequence acc = of_nat (length (VirtualFrontierContracts data)) \<and>
             (length (VirtualFrontierContracts data) < 2 ^ 64 \<longrightarrow>
                unat (GetSequence acc) = length (VirtualFrontierContracts data))"
    if "InitGenesis pkg ctx k accountKeeper bankKeeper data = Inr (updates, ctx') \<and>
      length (PersistedVirtualFrontierContracts k ctx') = length (VirtualFrontierContracts data)"
    using that check by metis
  have aborts: "InitGenesis pkg ctx k accountKeeper bankKeeper data =
        Inl (PanicInvalidSequence (of_nat (length (VirtualFrontierContracts data)))
               (GetSequence acc), ctx')"
    if "InitGenesis_import pkg ctx k accountKeeper bankKeeper data = Inr ctx' \<and>
      GetModuleAccount accountKeeper ctx' (ModuleVirtualFrontierContractDeployerName pkg)
        = Some acc \<and>
      length (PersistedVirtualFrontierContracts k ctx') = length (VirtualFrontierContracts data) \<and>
      GetSequence acc \<noteq> of_nat (length (VirtualFrontierContracts data))"
    using that check by metis
  have imported: "PersistedVirtualFrontierContracts k ctx' = VirtualFrontierContracts data"
    if "InitGenesis_contracts k ctx0 data = Inr ctx' \<and>
      PersistedVirtualFrontierContracts k ctx0 = [] \<and>
      bulk_import_in_order k ctx0 (VirtualFrontierContracts data)"
    using that
    by (auto simp: InitGenesis_contracts_def bulk_import_in_order_def
        split: if_splits prod.splits option.splits)
  from check returns aborts imported show ?thesis
    by (intro conjI impI) blast+
qed

text \<open>
  C2. When the loop reaches an account entry whose code text is not empty and the
  Keccak-256 hash of the decoded code differs from the code hash of its Eth account,
  \<open>InitGenesis\<close> panics there with the mismatch; when the code text is empty, the entry
  is imported (its code and storage are written) whatever the recorded code hash is.
\<close>

theorem InitGenesis_code_hash_check:
  "(InitGenesis_setup pkg ctx k accountKeeper data = Inr ctx0 \<and>
    Accounts data = before @ account # rest \<and>
    InitGenesis_accounts pkg k accountKeeper ctx0 before = Inr ctx1 \<and>
    GetAccount accountKeeper ctx1 (common_HexToAddress pkg (GenesisAccount.Address account))
      = Some (EthAccount recorded) \<and>
    Code account \<noteq> [] \<and>
    Keccak256Hash pkg (common_Hex2Bytes pkg (Code account)) \<noteq> recorded \<longrightarrow>
      InitGenesis pkg ctx k accountKeeper bankKeeper data =
        Inl (PanicCodeHashMismatch (GenesisAccount.Address account)
               (Keccak256Hash pkg (common_Hex2Bytes pkg (Code account))) recorded
               (Code account), ctx1)) \<and>
   (GetAccount accountKeeper ctx1 (common_HexToAddress pkg (GenesisAccount.Address account))
      = Some (EthAccount recorded) \<and>
    Code account = [] \<longrightarrow>
      InitGenesis_account pkg k accountKeeper ctx1 account =
        Inr (foldl
               (\<lambda>ctx storage.
                  SetState k ctx (common_HexToAddress pkg (GenesisAccount.Address account))
                    (common_HexToHash pkg (Key storage))
                    (common_HexToHash pkg (Value storage)))
               (SetCode k ctx1 (Keccak256Hash pkg (common_Hex2Bytes pkg []))
                  (common_Hex2Bytes pkg []))
               (Storage account)))"
proof (intro conjI impI)
  assume h: "InitGenesis_setup pkg ctx k accountKeeper data = Inr ctx0 \<and>
    Accounts data = before @ account # rest \<and>
    InitGenesis_accounts pkg k accountKeeper ctx0 before = Inr ctx1 \<and>
    GetAccount accountKeeper ctx1 (common_HexToAddress pkg (GenesisAccount.Address account))
      = Some (EthAccount recorded) \<and>
    Code account \<noteq> [] \<and>
    Keccak256Hash pkg (common_Hex2Bytes pkg (Code account)) \<noteq> recorded"
  then have "InitGenesis_account pkg k accountKeeper ctx1 account =
      Inl (PanicCodeHashMismatch (GenesisAccount.Address account)
             (Keccak256Hash pkg (common_Hex2Bytes pkg (Code account))) recorded
             (Code account), ctx1)"
    by (auto simp: InitGenesis_account_def Let_def)
  with h have "InitGenesis_accounts pkg k accountKeeper ctx0 (Accounts data) =
      Inl (PanicCodeHashMismatch (GenesisAccount.Address account)
             (Keccak256Hash pkg (common_Hex2Bytes pkg (Code account))) recorded
             (Code account), ctx1)"
    by (simp add: InitGenesis_accounts_append)
  with h show "InitGenesis pkg ctx k accountKeeper bankKeeper data =
      Inl (PanicCodeHashMismatch (GenesisAccount.Address account)
             (Keccak256Hash pkg (common_Hex2Bytes pkg (Code account))) recorded
             (Code account), ctx1)"
    by (simp add: InitGenesis_def InitGenesis_import_def)
next
  assume "GetAccount accountKeeper ctx1
      (common_HexToAddress pkg (GenesisAccount.Address account)) = Some (EthAccount recorded) \<and>
    Code account = []"
  then show "InitGenesis_account pkg k accountKeeper ctx1 account =
      Inr (foldl
             (\<lambda>ctx storage.
                SetState k ctx (common_HexToAddress pkg (GenesisAccount.Address account))
                  (common_HexToHash pkg (Key storage))
                  (common_HexToHash pkg (Value storage)))
             (SetCode k ctx1 (Keccak256Hash pkg (common_Hex2Bytes pkg []))
                (common_Hex2Bytes pkg []))
             (Storage account))"
    by (simp add: InitGenesis_account_def Let_def)
qed

text \<open>
  C7. On a Dymension chain, a genesis state whose parameters set \<open>EnableCreate\<close> makes
  \<open>InitGenesis\<close> panic in the state it was called in: whatever the keepers are, none of
  their methods has been applied, so nothing has been written.
\<close>

theorem InitGenesis_EnableCreate_on_Dymension:
  "IsOneOfDymensionChains pkg ctx \<Longrightarrow> EnableCreate (Params data) \<Longrightarrow>
     InitGenesis pkg ctx k accountKeeper bankKeeper data =
       Inl (PanicEnableCreateNotAllowed, ctx)"
  by (simp add: InitGenesis_def InitGenesis_import_def InitGenesis_setup_def)

text \<open>
  C8. The development-network step leaves the state as it is, without a panic, when a
  bank contract is found for the fee denomination; whenever it does anything else (a
  deployment or a panic), the chain is a development chain and the lookup has reported
  not-found. So running the step again after the contract is registered does nothing.
\<close>

theorem InitGenesis_devnet_idempotent:
  "(snd (GetVirtualFrontierBankContractAddressByDenom k ctx (EvmDenom (Params data))) \<longrightarrow>
      InitGenesis_devnet pkg k bankKeeper ctx data = Inr ctx) \<and>
   (InitGenesis_devnet pkg k bankKeeper ctx data \<noteq> Inr ctx \<longrightarrow>
      IsEthermintDevChain pkg ctx \<and>
      \<not> snd (GetVirtualFrontierBankContractAddressByDenom k ctx (EvmDenom (Params data))))"
  by (auto simp: InitGenesis_devnet_def Let_def split: prod.splits)

text \<open>
  C10. On a development chain whose \<open>EvmDenom\<close> is empty, with no bank contract and no
  bank metadata for it, \<open>InitGenesis\<close> reaches \<open>denom[1:]\<close> (when the steps before it go
  through) and panics with the slice bounds \<open>[1:0]\<close> out of range, before anything is
  deployed; with a non-empty \<open>EvmDenom\<close> the step never panics on the slice.
\<close>

theorem InitGenesis_devnet_empty_denom:
  "(InitGenesis_setup pkg ctx k accountKeeper data = Inr ctx0 \<and>
    InitGenesis_accounts pkg k accountKeeper ctx0 (Accounts data) = Inr ctx1 \<and>
    IsEthermintDevChain pkg ctx1 \<and>
    EvmDenom (Params data) = [] \<and>
    \<not> snd (GetVirtualFrontierBankContractAddressByDenom k ctx1 []) \<and>
    \<not> snd (GetDenomMetaData bankKeeper ctx1 []) \<longrightarrow>
      InitGenesis pkg ctx k accountKeeper bankKeeper data =
        Inl (PanicSliceBoundsOutOfRange 1 0, ctx1)) \<and>
   (EvmDenom (Params data) \<noteq> [] \<longrightarrow>
      InitGenesis_devnet pkg k bankKeeper ctx1 data \<noteq>
        Inl (PanicSliceBoundsOutOfRange low high, ctx2))"
proof (intro conjI impI)
  assume h: "InitGenesis_setup pkg ctx k accountKeeper data = Inr ctx0 \<and>
    InitGenesis_accounts pkg k accountKeeper ctx0 (Accounts data) = Inr ctx1 \<and>
    IsEthermintDevChain pkg ctx1 \<and>
    EvmDenom (Params data) = [] \<and>
    \<not> snd (GetVirtualFrontierBankContractAddressByDenom k ctx1 []) \<and>
    \<not> snd (GetDenomMetaData bankKeeper ctx1 [])"
  then have "InitGenesis_nativeMetadata pkg bankKeeper ctx1 [] =
      Inl (PanicSliceBoundsOutOfRange 1 0, ctx1)"
    by (auto simp: InitGenesis_nativeMetadata_def split: prod.splits)
  with h have "InitGenesis_devnet pkg k bankKeeper ctx1 data =
      Inl (PanicSliceBoundsOutOfRange 1 0, ctx1)"
    by (auto simp: InitGenesis_devnet_def Let_def split: prod.splits)
  with h show "InitGenesis pkg ctx k accountKeeper bankKeeper data =
      Inl (PanicSliceBoundsOutOfRange 1 0, ctx1)"
    by (simp add: InitGenesis_def InitGenesis_import_def)
next
  assume ne: "EvmDenom (Params data) \<noteq> []"
  then have "InitGenesis_nativeMetadata pkg bankKeeper c (EvmDenom (Params data)) \<noteq>
      Inl (PanicSliceBoundsOutOfRange low high, c')" for c c'
    by (auto simp: InitGenesis_nativeMetadata_def Let_def split: prod.splits)
  then show "InitGenesis_devnet pkg k bankKeeper ctx1 data \<noteq>
      Inl (PanicSliceBoundsOutOfRange low high, ctx2)"
    by (auto simp: InitGenesis_devnet_def Let_def split: prod.splits sum.splits if_splits)
qed

subsection \<open>The examples, evaluated\<close>

lemma example_import_two_contracts:
  "InitGenesis_import example_Packages empty_World example_Keeper example_AccountKeeper
     example_BankKeeper genesis_two_contracts = Inr (world_two_contracts 2)"
  by code_simp

lemma example_plain_import_two_contracts:
  "InitGenesis_import example_Packages empty_World example_Keeper_plain_import
     example_AccountKeeper example_BankKeeper genesis_two_contracts
   = Inr (world_two_contracts 0)"
  by code_simp

lemma example_deployer_account:
  "GetModuleAccount example_AccountKeeper (world_two_contracts n)
     (ModuleVirtualFrontierContractDeployerName example_Packages) = Some \<lparr>GetSequence = n\<rparr>"
  by (simp add: example_AccountKeeper_def example_Packages_def world_two_contracts_def)

lemma example_persisted_two:
  "length (PersistedVirtualFrontierContracts example_Keeper (world_two_contracts n)) = 2"
  "length (PersistedVirtualFrontierContracts example_Keeper_plain_import
     (world_two_contracts n)) = 2"
  by (simp_all add: example_Keeper_def example_Keeper_plain_import_def
      world_two_contracts_def genesis_two_contracts_def)

lemma example_setup_accounts:
  "InitGenesis_setup example_Packages world_with_account example_Keeper
     example_AccountKeeper genesis_accounts = Inr world_after_setup"
  by code_simp

lemma example_first_account:
  "InitGenesis_accounts example_Packages example_Keeper example_AccountKeeper
     world_after_setup [account_without_code] = Inr world_after_first_account"
  by code_simp

lemma example_recorded_hash:
  "GetAccount example_AccountKeeper world_after_first_account
     (common_HexToAddress example_Packages (GenesisAccount.Address account_with_code))
   = Some (EthAccount (replicate 32 0xff))"
  "GetAccount example_AccountKeeper world_after_setup
     (common_HexToAddress example_Packages (GenesisAccount.Address account_without_code))
   = Some (EthAccount (replicate 32 0xff))"
  by code_simp+

lemma example_code_hash:
  "Keccak256Hash example_Packages
     (common_Hex2Bytes example_Packages (Code account_with_code)) = replicate 31 0 @ [2]"
  by code_simp

lemma example_deploy:
  "InitGenesis_devnet example_Packages example_Keeper example_BankKeeper devnet_World
     genesis_plain = Inr world_deployed"
  by code_simp

lemma example_lookups:
  "GetVirtualFrontierBankContractAddressByDenom example_Keeper world_deployed
     (EvmDenom (Params genesis_plain)) = (replicate 19 0 @ [1], True)"
  "GetVirtualFrontierBankContractAddressByDenom example_Keeper devnet_World
     (EvmDenom (Params genesis_plain)) = (replicate 20 0, False)"
  "GetVirtualFrontierBankContractAddressByDenom example_Keeper world_empty_denom []
     = (replicate 20 0, False)"
  "GetDenomMetaData example_BankKeeper world_empty_denom []
     = (\<lparr>DenomUnits = [], Base = '''', Display = '''', Name = '''', Symbol = ''''\<rparr>, False)"
  by code_simp+

lemma example_setup_empty_denom:
  "InitGenesis_setup example_Packages devnet_World example_Keeper example_AccountKeeper
     genesis_empty_denom = Inr world_empty_denom"
  "InitGenesis_accounts example_Packages example_Keeper example_AccountKeeper
     world_empty_denom (Accounts genesis_empty_denom) = Inr world_empty_denom"
  by code_simp+

lemma example_contracts_step:
  "InitGenesis_contracts example_Keeper world_params_set genesis_two_contracts
     = Inr (world_two_contracts 2)"
  "PersistedVirtualFrontierContracts example_Keeper world_params_set = []"
  "bulk_import_in_order example_Keeper world_params_set
     (VirtualFrontierContracts genesis_two_contracts)"
  "GetModuleAccount example_AccountKeeper empty_World
     (ModuleVirtualFrontierContractDeployerName example_Packages) = Some \<lparr>GetSequence = 0\<rparr>"
  by code_simp+

lemma example_two_records:
  "length (VirtualFrontierContracts genesis_two_contracts) = 2"
  by (simp add: genesis_two_contracts_def)

theorem InitGenesis_deployer_sequence_witness:
  "InitGenesis_import example_Packages empty_World example_Keeper example_AccountKeeper
     example_BankKeeper genesis_two_contracts = Inr (world_two_contracts 2) \<and>
   GetModuleAccount example_AccountKeeper (world_two_contracts 2)
     (ModuleVirtualFrontierContractDeployerName example_Packages)
     = Some \<lparr>GetSequence = 2\<rparr> \<and>
   length (PersistedVirtualFrontierContracts example_Keeper (world_two_contracts 2)) = 2 \<and>
   InitGenesis example_Packages empty_World example_Keeper example_AccountKeeper
     example_BankKeeper genesis_two_contracts = Inr ([], world_two_contracts 2) \<and>
   InitGenesis_import example_Packages empty_World example_Keeper_plain_import
     example_AccountKeeper example_BankKeeper genesis_two_contracts
     = Inr (world_two_contracts 0) \<and>
   GetModuleAccount example_AccountKeeper (world_two_contracts 0)
     (ModuleVirtualFrontierContractDeployerName example_Packages)
     = Some \<lparr>GetSequence = 0\<rparr> \<and>
   InitGenesis example_Packages empty_World example_Keeper_plain_import
     example_AccountKeeper example_BankKeeper genesis_two_contracts
     = Inl (PanicInvalidSequence 2 0, world_two_contracts 0) \<and>
   GetModuleAccount example_AccountKeeper empty_World
     (ModuleVirtualFrontierContractDeployerName example_Packages)
     = Some \<lparr>GetSequence = 0\<rparr> \<and>
   length (VirtualFrontierContracts genesis_two_contracts) = 2 \<and>
   length (PersistedVirtualFrontierContracts example_Keeper (world_two_contracts 2)) =
     length (VirtualFrontierContracts genesis_two_contracts) \<and>
   length (PersistedVirtualFrontierContracts example_Keeper_plain_import
     (world_two_contracts 0)) = length (VirtualFrontierContracts genesis_two_contracts) \<and>
   InitGenesis example_Packages empty_World example_Keeper_plain_import
     example_AccountKeeper example_BankKeeper genesis_two_contracts
     = Inl (PanicInvalidSequence
              (of_nat (length (VirtualFrontierContracts genesis_two_contracts))) 0,
            world_two_contracts 0) \<and>
   InitGenesis_contracts example_Keeper world_params_set genesis_two_contracts
     = Inr (world_two_contracts 2) \<and>
   PersistedVirtualFrontierContracts example_Keeper world_params_set = [] \<and>
   bulk_import_in_order example_Keeper world_params_set
     (VirtualFrontierContracts genesis_two_contracts) \<and>
   PersistedVirtualFrontierContracts example_Keeper (world_two_contracts 2)
     = VirtualFrontierContracts genesis_two_contracts"
  using
    InitGenesis_deployer_sequence [of example_Packages empty_World example_Keeper
      example_AccountKeeper example_BankKeeper genesis_two_contracts "world_two_contracts 2"
      "\<lparr>GetSequence = 2\<rparr>" "[]" world_params_set]
    InitGenesis_deployer_sequence [of example_Packages empty_World
      example_Keeper_plain_import example_AccountKeeper example_BankKeeper
      genesis_two_contracts "world_two_contracts 0" "\<lparr>GetSequence = 0\<rparr>" "[]"
      world_params_set]
  by (simp add: example_import_two_contracts example_plain_import_two_contracts
      example_deployer_account example_persisted_two example_contracts_step
      example_two_records)

theorem InitGenesis_code_hash_check_witness:
  "InitGenesis_setup example_Packages world_with_account example_Keeper
     example_AccountKeeper genesis_accounts = Inr world_after_setup \<and>
   Accounts genesis_accounts = [account_without_code] @ account_with_code # [] \<and>
   InitGenesis_accounts example_Packages example_Keeper example_AccountKeeper
     world_after_setup [account_without_code] = Inr world_after_first_account \<and>
   GetAccount example_AccountKeeper world_after_first_account
     (common_HexToAddress example_Packages (GenesisAccount.Address account_with_code))
     = Some (EthAccount (replicate 32 0xff)) \<and>
   Code account_with_code \<noteq> [] \<and>
   Keccak256Hash example_Packages (common_Hex2Bytes example_Packages (Code account_with_code))
     \<noteq> replicate 32 0xff \<and>
   InitGenesis example_Packages world_with_account example_Keeper example_AccountKeeper
     example_BankKeeper genesis_accounts =
     Inl (PanicCodeHashMismatch ''0x405b96e2538ac85ee862e332fa634b158d013ae1''
            (replicate 31 0 @ [2]) (replicate 32 0xff) ''6001'',
          world_after_first_account) \<and>
   GetAccount example_AccountKeeper world_after_setup
     (common_HexToAddress example_Packages (GenesisAccount.Address account_without_code))
     = Some (EthAccount (replicate 32 0xff)) \<and>
   Code account_without_code = [] \<and>
   InitGenesis_account example_Packages example_Keeper example_AccountKeeper
     world_after_setup account_without_code = Inr world_after_first_account"
proof -
  note st0 = example_setup_accounts
  note st1 = example_first_account
  note rec1 = example_recorded_hash(1)
  note rec0 = example_recorded_hash(2)
  have acc: "Accounts genesis_accounts = [account_without_code] @ account_with_code # []"
    by (simp add: genesis_accounts_def)
  have code1: "Code account_with_code \<noteq> []"
    by (simp add: account_with_code_def)
  have code0: "Code account_without_code = []"
    by (simp add: account_without_code_def)
  have ne: "Keccak256Hash example_Packages
      (common_Hex2Bytes example_Packages (Code account_with_code)) \<noteq> replicate 32 0xff"
    by code_simp
  have "InitGenesis example_Packages world_with_account example_Keeper example_AccountKeeper
      example_BankKeeper genesis_accounts =
      Inl (PanicCodeHashMismatch (GenesisAccount.Address account_with_code)
             (Keccak256Hash example_Packages
                (common_Hex2Bytes example_Packages (Code account_with_code)))
             (replicate 32 0xff) (Code account_with_code), world_after_first_account)"
    using
      InitGenesis_code_hash_check [of example_Packages world_with_account example_Keeper
        example_AccountKeeper genesis_accounts world_after_setup "[account_without_code]"
        account_with_code "[]" world_after_first_account "replicate 32 0xff"
        example_BankKeeper]
      st0 acc st1 rec1 code1 ne
    by blast
  then have panic: "InitGenesis example_Packages world_with_account example_Keeper
      example_AccountKeeper example_BankKeeper genesis_accounts =
      Inl (PanicCodeHashMismatch ''0x405b96e2538ac85ee862e332fa634b158d013ae1''
             (replicate 31 0 @ [2]) (replicate 32 0xff) ''6001'',
           world_after_first_account)"
    by (simp only: example_code_hash) (simp add: account_with_code_def)
  have "InitGenesis_account example_Packages example_Keeper example_AccountKeeper
      world_after_setup account_without_code =
      Inr (foldl
             (\<lambda>ctx storage.
                SetState example_Keeper ctx
                  (common_HexToAddress example_Packages
                     (GenesisAccount.Address account_without_code))
                  (common_HexToHash example_Packages (Key storage))
                  (common_HexToHash example_Packages (Value storage)))
             (SetCode example_Keeper world_after_setup
                (Keccak256Hash example_Packages (common_Hex2Bytes example_Packages []))
                (common_Hex2Bytes example_Packages []))
             (Storage account_without_code))"
    using
      InitGenesis_code_hash_check [of example_Packages world_with_account example_Keeper
        example_AccountKeeper genesis_accounts world_after_setup "[account_without_code]"
        account_without_code "[]" world_after_setup "replicate 32 0xff"
        example_BankKeeper]
      rec0 code0
    by blast
  moreover have "foldl
             (\<lambda>ctx storage.
                SetState example_Keeper ctx
                  (common_HexToAddress example_Packages
                     (GenesisAccount.Address account_without_code))
                  (common_HexToHash example_Packages (Key storage))
                  (common_HexToHash example_Packages (Value storage)))
             (SetCode example_Keeper world_after_setup
                (Keccak256Hash example_Packages (common_Hex2Bytes example_Packages []))
                (common_Hex2Bytes example_Packages []))
             (Storage account_without_code) = world_after_first_account"
    by code_simp
  ultimately have one: "InitGenesis_account example_Packages example_Keeper
      example_AccountKeeper world_after_setup account_without_code
      = Inr world_after_first_account"
    by (simp only:)
  from st0 acc st1 rec1 code1 ne panic rec0 code0 one show ?thesis
    by (intro conjI)
qed

theorem InitGenesis_EnableCreate_on_Dymension_witness:
  "IsOneOfDymensionChains example_Packages dymension_World \<and>
   EnableCreate (Params genesis_enable_create) \<and>
   InitGenesis example_Packages dymension_World example_Keeper example_AccountKeeper
     example_BankKeeper genesis_enable_create
     = Inl (PanicEnableCreateNotAllowed, dymension_World)"
proof -
  have a: "IsOneOfDymensionChains example_Packages dymension_World"
    by (simp add: example_Packages_def dymension_World_def)
  have b: "EnableCreate (Params genesis_enable_create)"
    by (simp add: genesis_enable_create_def)
  from a b InitGenesis_EnableCreate_on_Dymension [OF a b] show ?thesis
    by simp
qed

theorem InitGenesis_devnet_idempotent_witness:
  "InitGenesis_devnet example_Packages example_Keeper example_BankKeeper devnet_World
     genesis_plain = Inr world_deployed \<and>
   snd (GetVirtualFrontierBankContractAddressByDenom example_Keeper world_deployed
          (EvmDenom (Params genesis_plain))) \<and>
   InitGenesis_devnet example_Packages example_Keeper example_BankKeeper world_deployed
     genesis_plain = Inr world_deployed \<and>
   InitGenesis_devnet example_Packages example_Keeper example_BankKeeper devnet_World
     genesis_plain \<noteq> Inr devnet_World \<and>
   IsEthermintDevChain example_Packages devnet_World \<and>
   \<not> snd (GetVirtualFrontierBankContractAddressByDenom example_Keeper devnet_World
            (EvmDenom (Params genesis_plain)))"
proof -
  have ne: "world_deployed \<noteq> devnet_World"
    by (simp add: world_deployed_def devnet_World_def empty_World_def)
  show ?thesis
    using
      InitGenesis_devnet_idempotent [of example_Keeper world_deployed genesis_plain
        example_Packages example_BankKeeper]
      InitGenesis_devnet_idempotent [of example_Keeper devnet_World genesis_plain
        example_Packages example_BankKeeper]
      ne
    by (simp add: example_deploy example_lookups)
qed

theorem InitGenesis_devnet_empty_denom_witness:
  "InitGenesis_setup example_Packages devnet_World example_Keeper example_AccountKeeper
     genesis_empty_denom = Inr world_empty_denom \<and>
   InitGenesis_accounts example_Packages example_Keeper example_AccountKeeper
     world_empty_denom (Accounts genesis_empty_denom) = Inr world_empty_denom \<and>
   IsEthermintDevChain example_Packages world_empty_denom \<and>
   EvmDenom (Params genesis_empty_denom) = [] \<and>
   \<not> snd (GetVirtualFrontierBankContractAddressByDenom example_Keeper world_empty_denom []) \<and>
   \<not> snd (GetDenomMetaData example_BankKeeper world_empty_denom []) \<and>
   InitGenesis example_Packages devnet_World example_Keeper example_AccountKeeper
     example_BankKeeper genesis_empty_denom
     = Inl (PanicSliceBoundsOutOfRange 1 0, world_empty_denom) \<and>
   EvmDenom (Params genesis_plain) \<noteq> [] \<and>
   InitGenesis_devnet example_Packages example_Keeper example_BankKeeper devnet_World
     genesis_plain \<noteq> Inl (PanicSliceBoundsOutOfRange 1 0, devnet_World)"
proof -
  have dev: "IsEthermintDevChain example_Packages world_empty_denom"
    by (simp add: example_Packages_def world_empty_denom_def devnet_World_def)
  have d: "EvmDenom (Params genesis_empty_denom) = []"
    "EvmDenom (Params genesis_plain) \<noteq> []"
    by (simp_all add: genesis_empty_denom_def genesis_plain_def example_params_def)
  show ?thesis
    using
      InitGenesis_devnet_empty_denom [of example_Packages devnet_World example_Keeper
        example_AccountKeeper genesis_empty_denom world_empty_denom world_empty_denom
        example_BankKeeper]
      InitGenesis_devnet_empty_denom [of example_Packages devnet_World example_Keeper
        example_AccountKeeper genesis_plain world_empty_denom devnet_World
        example_BankKeeper 1 0 devnet_World]
      dev d
    by (simp add: example_setup_empty_denom example_lookups)
qed

end
